theory Spec2Isabelle
  imports Main "HOL-Library.Char_ord" "HOL-Library.List_Lexorder" "HOL-Library.Multiset"
begin

section \<open>JavaScript values and strings\<close>

text \<open>
  The tracker is written in JavaScript. A JavaScript string is modelled as a \<open>string\<close>
  (one \<open>char\<close> per code unit); the dynamically typed values that reach the CSV writer
  are modelled by \<open>jsval\<close>. \<open>Num\<close> carries an integer (the data model stores integer
  amounts, counts and orders); \<open>NaN\<close> is the result of a failed \<open>parseInt\<close>.
\<close>

datatype jsval = Undefined | Null | Bool bool | Num int | NaN | Str string

abbreviation dquote :: char where "dquote \<equiv> CHR 0x22"
abbreviation comma :: char where "comma \<equiv> CHR 0x2C"
abbreviation newline :: char where "newline \<equiv> CHR 0x0A"
abbreviation creturn :: char where "creturn \<equiv> CHR 0x0D"

text \<open>Decimal digits of a natural number, most significant first (\<open>String(n)\<close>).\<close>

definition digitChar :: "nat \<Rightarrow> char" where
  "digitChar d = ''0123456789'' ! d"

fun showNat :: "nat \<Rightarrow> string" where
  "showNat n = (if n < 10 then [digitChar n] else showNat (n div 10) @ [digitChar (n mod 10)])"

declare showNat.simps [simp del]

definition showInt :: "int \<Rightarrow> string" where
  "showInt i = (if i < 0 then CHR ''-'' # showNat (nat (- i)) else showNat (nat i))"

text \<open>\<open>String(value)\<close>.\<close>

fun String :: "jsval \<Rightarrow> string" where
  "String Undefined = ''undefined''"
| "String Null = ''null''"
| "String (Bool b) = (if b then ''true'' else ''false'')"
| "String (Num i) = showInt i"
| "String NaN = ''NaN''"
| "String (Str s) = s"

text \<open>\<open>Array.prototype.join(sep)\<close> on an array of strings.\<close>

fun join :: "string \<Rightarrow> string list \<Rightarrow> string" where
  "join sep [] = []"
| "join sep [x] = x"
| "join sep (x # y # ys) = x @ sep @ join sep (y # ys)"

section \<open>CSV row tokenizer (core-scripts.js)\<close>

text \<open>
  \<open>escapeCSV\<close>, the helper inside \<open>convertDataToCSV\<close>: \<open>null\<close> and \<open>undefined\<close>
  become the empty string; a value whose string form contains a comma, a double quote or
  a newline is wrapped in double quotes with every double quote doubled.
\<close>

definition replaceQuotes :: "string \<Rightarrow> string" where
  "replaceQuotes s = concat (map (\<lambda>c. if c = dquote then [dquote, dquote] else [c]) s)"

definition escapeCSV :: "jsval \<Rightarrow> string" where
  "escapeCSV v =
     (if v = Null \<or> v = Undefined then []
      else let stringValue = String v in
        if comma \<in> set stringValue \<or> dquote \<in> set stringValue \<or> newline \<in> set stringValue
        then [dquote] @ replaceQuotes stringValue @ [dquote]
        else stringValue)"

text \<open>
  \<open>parseCSVRow\<close>: the \<open>while (i < row.length)\<close> loop. The first argument is the part
  of the row from index \<open>i\<close> on; the other arguments are the loop's variables
  \<open>insideQuotes\<close>, \<open>currentValue\<close> and \<open>result\<close>. The test for an escaped quote
  (\<open>i + 1 < row.length && row[i + 1] === '"'\<close>) does not look at \<open>insideQuotes\<close>.
\<close>

fun parseCSVRow_loop :: "string \<Rightarrow> bool \<Rightarrow> string \<Rightarrow> string list \<Rightarrow> string list" where
  "parseCSVRow_loop [] insideQuotes currentValue result = result @ [currentValue]"
| "parseCSVRow_loop (c # cs) insideQuotes currentValue result =
     (if c = dquote then
        (case cs of
           c' # cs' \<Rightarrow>
             if c' = dquote then parseCSVRow_loop cs' insideQuotes (currentValue @ [dquote]) result
             else parseCSVRow_loop cs (\<not> insideQuotes) currentValue result
         | [] \<Rightarrow> parseCSVRow_loop cs (\<not> insideQuotes) currentValue result)
      else if c = comma \<and> \<not> insideQuotes then
        parseCSVRow_loop cs insideQuotes [] (result @ [currentValue])
      else parseCSVRow_loop cs insideQuotes (currentValue @ [c]) result)"

definition parseCSVRow :: "string \<Rightarrow> string list" where
  "parseCSVRow row = parseCSVRow_loop row False [] []"

text \<open>
  The scan as the specification words it: a quote followed by another quote is an escaped
  quote only while inside quotes; otherwise a quote toggles the flag.
\<close>

fun parseRow_spec_loop :: "string \<Rightarrow> bool \<Rightarrow> string \<Rightarrow> string list \<Rightarrow> string list" where
  "parseRow_spec_loop [] insideQuotes currentValue result = result @ [currentValue]"
| "parseRow_spec_loop (c # cs) insideQuotes currentValue result =
     (if c = dquote then
        (case cs of
           c' # cs' \<Rightarrow>
             if insideQuotes \<and> c' = dquote
             then parseRow_spec_loop cs' insideQuotes (currentValue @ [dquote]) result
             else parseRow_spec_loop cs (\<not> insideQuotes) currentValue result
         | [] \<Rightarrow> parseRow_spec_loop cs (\<not> insideQuotes) currentValue result)
      else if c = comma \<and> \<not> insideQuotes then
        parseRow_spec_loop cs insideQuotes [] (result @ [currentValue])
      else parseRow_spec_loop cs insideQuotes (currentValue @ [c]) result)"

definition parseRow_spec :: "string \<Rightarrow> string list" where
  "parseRow_spec row = parseRow_spec_loop row False [] []"


text \<open>
  What \<open>escapeCSV\<close> writes for a value before quoting, and what \<open>parseCSVRow\<close> reads
  back from the escaped text: a non-empty field made of double quotes only comes back
  with one more double quote (\<open>rereadField\<close>).
\<close>

definition fieldText :: "jsval \<Rightarrow> string" where
  "fieldText v = (if v = Null \<or> v = Undefined then [] else String v)"

definition onlyQuotes :: "string \<Rightarrow> bool" where
  "onlyQuotes s = (s \<noteq> [] \<and> set s \<subseteq> {dquote})"

definition rereadField :: "string \<Rightarrow> string" where
  "rereadField s = (if onlyQuotes s then s @ [dquote] else s)"

section \<open>Calendar days\<close>

text \<open>
  History maps are keyed by \<open>DateKey\<close> strings \<open>YYYY-MM-DD\<close>. This section is the
  civil calendar itself, used to say what a date key denotes and which day is the next
  calendar day of which: the ten-character form with a valid month and day, and the
  number of its day counted from 1970-01-01. How the code reads a key is the next
  section.
\<close>

definition isDigit :: "char \<Rightarrow> bool" where
  "isDigit c = (c \<in> set ''0123456789'')"

definition digitVal :: "char \<Rightarrow> nat" where
  "digitVal c = of_char c - 48"

definition isLeapYear :: "nat \<Rightarrow> bool" where
  "isLeapYear y = ((y mod 4 = 0 \<and> y mod 100 \<noteq> 0) \<or> y mod 400 = 0)"

definition daysInMonth :: "nat \<Rightarrow> nat \<Rightarrow> nat" where
  "daysInMonth y m =
     (if m = 2 then (if isLeapYear y then 29 else 28)
      else if m = 4 \<or> m = 6 \<or> m = 9 \<or> m = 11 then 30 else 31)"


text \<open>Days of the year before the first of month \<open>m\<close>.\<close>

definition daysBeforeMonth :: "nat \<Rightarrow> nat \<Rightarrow> nat" where
  "daysBeforeMonth y m = sum_list (map (daysInMonth y) [1..<m])"

text \<open>Days from 0000-01-01 to the first of January of year \<open>y\<close>.\<close>

definition daysBeforeYear :: "nat \<Rightarrow> nat" where
  "daysBeforeYear y = 365 * y + (y + 3) div 4 - (y + 99) div 100 + (y + 399) div 400"

fun parseDateKey :: "string \<Rightarrow> (nat \<times> nat \<times> nat) option" where
  "parseDateKey [y1, y2, y3, y4, s1, m1, m2, s2, d1, d2] =
     (if isDigit y1 \<and> isDigit y2 \<and> isDigit y3 \<and> isDigit y4 \<and> s1 = CHR ''-'' \<and>
         isDigit m1 \<and> isDigit m2 \<and> s2 = CHR ''-'' \<and> isDigit d1 \<and> isDigit d2
      then
        let y = 1000 * digitVal y1 + 100 * digitVal y2 + 10 * digitVal y3 + digitVal y4;
            m = 10 * digitVal m1 + digitVal m2;
            d = 10 * digitVal d1 + digitVal d2
        in if 1 \<le> m \<and> m \<le> 12 \<and> 1 \<le> d \<and> d \<le> daysInMonth y m then Some (y, m, d) else None
      else None)"
| "parseDateKey _ = None"

text \<open>The day's number, counted from 1970-01-01.\<close>

definition dayIndex :: "string \<Rightarrow> int option" where
  "dayIndex date =
     (case parseDateKey date of
        None \<Rightarrow> None
      | Some (y, m, d) \<Rightarrow>
          Some (int (daysBeforeYear y + daysBeforeMonth y m + d) - 719529))"

definition msPerDay :: int where
  "msPerDay = 86400000"

text \<open>Midnight UTC of a date key, in milliseconds since the epoch.\<close>

definition isoDateOnly :: "string \<Rightarrow> int option" where
  "isoDateOnly date = map_option (\<lambda>d. d * msPerDay) (dayIndex date)"

text \<open>Date \<open>e\<close> is the calendar day after date \<open>d\<close>.\<close>

definition calendarNext :: "string \<Rightarrow> string \<Rightarrow> bool" where
  "calendarNext d e =
     (case (dayIndex d, dayIndex e) of (Some a, Some b) \<Rightarrow> b = a + 1 | _ \<Rightarrow> False)"

section \<open>The host's \<open>Date\<close>\<close>

text \<open>
  The streak code reads a key with \<open>new Date(date)\<close>, steps to the next day with
  \<open>setDate(getDate() + 1)\<close> and compares instants with \<open>getTime()\<close>. What these do
  depends on the JavaScript host: on the strings its date parser accepts and on the
  local time zone. Both are parameters of the model.
  \<^item> \<open>dateParse\<close> is \<open>new Date(s).getTime()\<close> for a string \<open>s\<close>, in milliseconds
    since the epoch, with \<open>None\<close> for \<open>NaN\<close> (an invalid date).
  \<^item> \<open>localTZA t isUTC\<close> is the offset of local time from UTC in milliseconds, at the UTC
    instant \<open>t\<close> when \<open>isUTC\<close> holds and at the local time \<open>t\<close> otherwise (the
    abstract operation of that name in ECMAScript).

  Time values are whole milliseconds, which a JavaScript number holds exactly over the
  whole range of \<open>Date\<close>. A step that leaves that range gives an invalid date in the
  code and here an instant outside the range, and neither equals the instant of a parsed
  key.
\<close>

record host =
  dateParse :: "string \<Rightarrow> int option"
  localTZA :: "int \<Rightarrow> bool \<Rightarrow> int"

text \<open>
  \<open>nextDay = new Date(lastDate); nextDay.setDate(lastDate.getDate() + 1); nextDay.getTime()\<close>
  for a valid \<open>lastDate\<close> with time value \<open>t\<close>: the instant is taken to local time,
  the local date is advanced by one day with the local time of day kept, and the result is
  taken back to UTC. Across a change of the offset the result is not 24 hours later.
\<close>

definition nextDayTime :: "(int \<Rightarrow> bool \<Rightarrow> int) \<Rightarrow> int \<Rightarrow> int" where
  "nextDayTime tza t =
     (let localTime = t + tza t True;
          nextLocal = localTime + msPerDay
      in nextLocal - tza nextLocal False)"

text \<open>
  \<open>currentDate.getTime() === nextDay.getTime()\<close> for \<open>currentDate = new Date(date)\<close> and
  \<open>lastDate = new Date(currentStreak.end)\<close>. An invalid date stays invalid under
  \<open>setDate\<close>, and \<open>NaN === NaN\<close> is false.
\<close>

definition isNextDay :: "host \<Rightarrow> string \<Rightarrow> string \<Rightarrow> bool" where
  "isNextDay H lastEnd date =
     (case (dateParse H date, dateParse H lastEnd) of
        (Some currentDate, Some lastDate) \<Rightarrow> currentDate = nextDayTime (localTZA H) lastDate
      | _ \<Rightarrow> False)"

text \<open>
  Conditions on a host at a key. \<open>readsDateKey\<close>: the key is a date key and the host reads
  it as midnight UTC of its day, as ECMAScript prescribes for the date-only form.
  \<open>steadyAfter\<close>: the day after the key's instant is 24 hours later, as it is when the local
  offset does not change in between. \<open>shiftBounded\<close>: it is less than 24 hours away from
  that, as it is with any daylight-saving change.
\<close>

definition readsDateKey :: "host \<Rightarrow> string \<Rightarrow> bool" where
  "readsDateKey H date = (dayIndex date \<noteq> None \<and> dateParse H date = isoDateOnly date)"


definition shiftBounded :: "host \<Rightarrow> string \<Rightarrow> bool" where
  "shiftBounded H date =
     (case dateParse H date of
        None \<Rightarrow> True
      | Some t \<Rightarrow> \<bar>nextDayTime (localTZA H) t - (t + msPerDay)\<bar> < msPerDay)"

text \<open>
  Two hosts for the worked examples, both reading date keys as prescribed (the examples
  use date keys only): one whose local time is UTC, and one with the offsets of New York
  in 2024, five hours behind UTC and four from 10 March, 07:00 UTC, to 3 November,
  06:00 UTC.
\<close>

definition utcHost :: host where
  "utcHost = \<lparr>dateParse = isoDateOnly, localTZA = (\<lambda>t isUTC. 0)\<rparr>"

definition newYork2024 :: "int \<Rightarrow> bool \<Rightarrow> int" where
  "newYork2024 t isUTC =
     (if isUTC then (if 1710054000000 \<le> t \<and> t < 1730613600000 then - 14400000 else - 18000000)
      else (if 1710039600000 \<le> t \<and> t < 1730599200000 then - 14400000 else - 18000000))"

definition newYorkHost :: host where
  "newYorkHost = \<lparr>dateParse = isoDateOnly, localTZA = newYork2024\<rparr>"

text \<open>
  The instant reached from \<open>t\<close> by \<open>n\<close> steps to the next local day.
\<close>

fun localDaysAfter :: "(int \<Rightarrow> bool \<Rightarrow> int) \<Rightarrow> nat \<Rightarrow> int \<Rightarrow> int" where
  "localDaysAfter tza 0 t = t"
| "localDaysAfter tza (Suc n) t = localDaysAfter tza n (nextDayTime tza t)"

section \<open>Streak analyzer (habits-scripts.js)\<close>

text \<open>A streak object \<open>{ start, end, length }\<close>; the comparison view adds \<open>type\<close>.\<close>

record streak =
  s_start :: string
  s_end :: string
  s_length :: nat
  s_type :: "string option"

definition newStreak :: "string \<Rightarrow> streak" where
  "newStreak date = \<lparr>s_start = date, s_end = date, s_length = 1, s_type = None\<rparr>"

text \<open>
  \<open>streaks.sort((a, b) => b.length - a.length)\<close>: a stable sort, longest first.
\<close>

definition sortByLengthDesc :: "streak list \<Rightarrow> streak list" where
  "sortByLengthDesc streaks = sort_key (\<lambda>s. - int (s_length s)) streaks"

subsection \<open>\<open>calculateStreaks(history)\<close>\<close>

text \<open>
  A habit's history is an object from date keys to a status; it is modelled by the list
  of its entries in the order \<open>Object.entries\<close> enumerates them. \<open>.sort()\<close> without a
  comparator orders strings by their code units, which is the lexicographic order of
  \<open>string\<close>.
\<close>

definition sortedDates :: "(string \<times> string) list \<Rightarrow> string list" where
  "sortedDates history =
     sort (map fst (filter (\<lambda>(date, status). status = ''done'') history))"

text \<open>The body of \<open>sortedDates.forEach\<close>; the state is \<open>(streaks, currentStreak)\<close>.\<close>

fun streakStep :: "host \<Rightarrow> streak list \<times> streak option \<Rightarrow> string \<Rightarrow> streak list \<times> streak option" where
  "streakStep H (streaks, None) date = (streaks, Some (newStreak date))"
| "streakStep H (streaks, Some currentStreak) date =
     (if isNextDay H (s_end currentStreak) date
      then (streaks, Some (currentStreak\<lparr>s_end := date, s_length := s_length currentStreak + 1\<rparr>))
      else (streaks @ [currentStreak], Some (newStreak date)))"

text \<open>\<open>if (currentStreak) streaks.push(currentStreak)\<close>.\<close>

fun pushCurrent :: "streak list \<times> streak option \<Rightarrow> streak list" where
  "pushCurrent (streaks, None) = streaks"
| "pushCurrent (streaks, Some currentStreak) = streaks @ [currentStreak]"

definition calculateStreaks :: "host \<Rightarrow> (string \<times> string) list \<Rightarrow> streak list" where
  "calculateStreaks H history =
     sortByLengthDesc (pushCurrent (foldl (streakStep H) ([], None) (sortedDates history)))"

subsection \<open>The workout streak functions\<close>

text \<open>
  A workout history entry \<open>{ type, count, timestamp }\<close>, and the history object from date
  keys to entry arrays, again as the list of its entries.
\<close>

record workoutEntry =
  w_type :: jsval
  w_count :: jsval
  w_timestamp :: jsval

type_synonym workoutHistory = "(string \<times> workoutEntry list) list"













text \<open>
  The grouping the specification describes: a list of dates cut into maximal runs, where
  a date stays in the run of its predecessor exactly when it is the next day. The
  relation \<open>nxt\<close> says which date is the next day of which; for the specification it is
  \<open>calendarNext\<close>.
\<close>

fun splitRuns :: "(string \<Rightarrow> string \<Rightarrow> bool) \<Rightarrow> string list \<Rightarrow> string list list" where
  "splitRuns nxt [] = []"
| "splitRuns nxt [d] = [[d]]"
| "splitRuns nxt (d # e # ds) =
     (if nxt d e
      then (case splitRuns nxt (e # ds) of [] \<Rightarrow> [[d]] | r # rs \<Rightarrow> (d # r) # rs)
      else [d] # splitRuns nxt (e # ds))"

fun consecutiveRun :: "(string \<Rightarrow> string \<Rightarrow> bool) \<Rightarrow> string list \<Rightarrow> bool" where
  "consecutiveRun nxt [] = True"
| "consecutiveRun nxt [d] = True"
| "consecutiveRun nxt (d # e # ds) = (nxt d e \<and> consecutiveRun nxt (e # ds))"


definition streakOf :: "string list \<Rightarrow> streak" where
  "streakOf run = \<lparr>s_start = hd run, s_end = last run, s_length = length run, s_type = None\<rparr>"



text \<open>Streaks of more than one day, the ones the workout functions are written to keep.\<close>

definition longStreaks :: "streak list \<Rightarrow> streak list" where
  "longStreaks streaks = filter (\<lambda>s. s_length s > 1) streaks"




section \<open>Tabular codec: the tracked data\<close>

text \<open>
  The data the codec moves, as \<open>convertDataToCSV\<close> reads it from storage after
  \<open>JSON.parse\<close> and as \<open>parseCSVData\<close> rebuilds it. An object used as a map is the
  list of its entries in enumeration order; an array is a list. Scalars read with
  \<open>localStorage.getItem\<close> are strings or \<open>null\<close>.
\<close>

record intakeEntry =
  e_amount :: jsval
  e_timestamp :: jsval

record workoutStateEntry =
  ws_completed :: jsval
  ws_order :: jsval

record habit =
  h_name :: jsval
  h_color :: jsval
  h_history :: "(string \<times> jsval) list"

record trackedData =
  water_goal :: jsval
  water_intake :: jsval
  water_history :: "(string \<times> intakeEntry list) list"
  protein_goal :: jsval
  protein_intake :: jsval
  protein_history :: "(string \<times> intakeEntry list) list"
  workout_state :: "(string \<times> workoutStateEntry) list"
  workout_count :: "(string \<times> jsval) list"
  workout_history :: workoutHistory
  habits_data :: "habit list"
  settings_theme :: jsval
  settings_reminder :: jsval

section \<open>Tabular codec: \<open>convertDataToCSV\<close>\<close>

definition headers :: "string list" where
  "headers = [''data_type'', ''key'', ''value'', ''date'', ''amount'', ''timestamp'', ''type'',
              ''count'', ''name'', ''color'', ''completed'', ''order'']"

text \<open>A cell left at the \<open>''\<close> the row array is filled with.\<close>

abbreviation blank :: jsval where "blank \<equiv> Str []"

text \<open>
  Each row is the array of twelve cells before escaping, in header order:
  data_type, key, value, date, amount, timestamp, type, count, name, color, completed,
  order.
\<close>

definition addRow :: "string \<Rightarrow> string \<Rightarrow> jsval \<Rightarrow> jsval list" where
  "addRow dataType key value =
     [Str dataType, Str key, value, blank, blank, blank, blank, blank, blank, blank, blank, blank]"

text \<open>
  \<open>Object.entries(history).forEach(([date, entries]) => entries.forEach((entry, index) => ...))\<close>
  for the water and protein histories; the key cell is \<open>`${date}_${index}`\<close>.
\<close>

definition intakeHistoryRows :: "string \<Rightarrow> (string \<times> intakeEntry list) list \<Rightarrow> jsval list list" where
  "intakeHistoryRows dataType history =
     concat (map (\<lambda>(date, entries).
       map (\<lambda>(index, entry).
         [Str dataType, Str (date @ ''_'' @ showNat index), blank, Str date, e_amount entry,
          e_timestamp entry, blank, blank, blank, blank, blank, blank])
         (enumerate 0 entries)) history)"

definition workoutStateRows :: "(string \<times> workoutStateEntry) list \<Rightarrow> jsval list list" where
  "workoutStateRows workoutState =
     map (\<lambda>(type, state).
       [Str ''workout_state'', Str type, blank, blank, blank, blank, Str type, blank, blank, blank,
        ws_completed state, ws_order state]) workoutState"

definition workoutCountRows :: "(string \<times> jsval) list \<Rightarrow> jsval list list" where
  "workoutCountRows workoutCount =
     map (\<lambda>(type, count).
       [Str ''workout_count'', Str type, blank, blank, blank, blank, Str type, count, blank, blank,
        blank, blank]) workoutCount"

definition workoutHistoryRows :: "workoutHistory \<Rightarrow> jsval list list" where
  "workoutHistoryRows history =
     concat (map (\<lambda>(date, entries).
       map (\<lambda>(index, entry).
         [Str ''workout_history'', Str (date @ ''_'' @ showNat index), blank, Str date, blank,
          w_timestamp entry, w_type entry, w_count entry, blank, blank, blank, blank])
         (enumerate 0 entries)) history)"

text \<open>
  \<open>habitsData.forEach((habit, habitIndex) => ...)\<close>: the habit's row, then one row per
  entry of its history with key \<open>`${habitIndex}_${date}`\<close>. A habit without a
  \<open>history\<close> property writes no history rows, as one with an empty history does.
\<close>

definition habitHistoryRow :: "nat \<Rightarrow> string \<times> jsval \<Rightarrow> jsval list" where
  "habitHistoryRow habitIndex = (\<lambda>(date, status).
     [Str ''habit_history'', Str (showNat habitIndex @ ''_'' @ date), status, Str date, blank, blank,
      blank, blank, blank, blank, blank, blank])"

definition habitRows :: "habit list \<Rightarrow> jsval list list" where
  "habitRows habitsData =
     concat (map (\<lambda>(habitIndex, habit).
       [Str ''habit'', Str (showNat habitIndex), blank, blank, blank, blank, blank, blank,
        h_name habit, h_color habit, blank, blank]
       # map (habitHistoryRow habitIndex) (h_history habit))
       (enumerate 0 habitsData))"

text \<open>
  All data rows, in the order they are pushed. \<open>exportDate\<close> stands for
  \<open>new Date().toISOString()\<close> at the time of the export.
\<close>

definition dataRows :: "string \<Rightarrow> 'a trackedData_scheme \<Rightarrow> jsval list list" where
  "dataRows exportDate d =
     [addRow ''meta'' ''version'' (Str ''2.0''), addRow ''meta'' ''exportDate'' (Str exportDate)]
     @ [addRow ''water'' ''goal'' (water_goal d), addRow ''water'' ''intake'' (water_intake d)]
     @ intakeHistoryRows ''water_history'' (water_history d)
     @ [addRow ''protein'' ''goal'' (protein_goal d), addRow ''protein'' ''intake'' (protein_intake d)]
     @ intakeHistoryRows ''protein_history'' (protein_history d)
     @ workoutStateRows (workout_state d)
     @ workoutCountRows (workout_count d)
     @ workoutHistoryRows (workout_history d)
     @ habitRows (habits_data d)
     @ [addRow ''settings'' ''theme'' (settings_theme d),
        addRow ''settings'' ''reminder'' (settings_reminder d)]"

text \<open>\<open>row.map(escapeCSV).join(',')\<close>.\<close>

definition csvLine :: "jsval list \<Rightarrow> string" where
  "csvLine row = join '','' (map escapeCSV row)"

definition csvRows :: "string \<Rightarrow> 'a trackedData_scheme \<Rightarrow> string list" where
  "csvRows exportDate d = join '','' headers # map csvLine (dataRows exportDate d)"

definition convertDataToCSV :: "string \<Rightarrow> 'a trackedData_scheme \<Rightarrow> string" where
  "convertDataToCSV exportDate d = join [newline] (csvRows exportDate d)"

text \<open>
  The tracked data of an empty store: every \<open>getItem\<close> returns \<open>null\<close>, so every scalar
  is \<open>null\<close> and every history is the \<open>{}\<close> or \<open>[]\<close> the code falls back to.
\<close>

definition emptyTrackedData :: trackedData where
  "emptyTrackedData =
     \<lparr>water_goal = Null, water_intake = Null, water_history = [],
      protein_goal = Null, protein_intake = Null, protein_history = [],
      workout_state = [], workout_count = [], workout_history = [], habits_data = [],
      settings_theme = Null, settings_reminder = Null\<rparr>"

section \<open>Tabular codec: \<open>parseCSVData\<close>\<close>

datatype error = FormatError | TypeError | QuotaError

text \<open>
  \<open>csvData.split(/\r?\n/)\<close>: the text is cut at every line feed, and a carriage return
  right before the line feed goes with it. The argument \<open>cur\<close> is the line read so far.
\<close>

fun splitLines_loop :: "string \<Rightarrow> string \<Rightarrow> string list" where
  "splitLines_loop cur [] = [cur]"
| "splitLines_loop cur (c # cs) =
     (if c = newline then cur # splitLines_loop [] cs
      else if c = creturn \<and> cs \<noteq> [] \<and> hd cs = newline then cur # splitLines_loop [] (tl cs)
      else splitLines_loop (cur @ [c]) cs)"

definition splitLines :: "string \<Rightarrow> string list" where
  "splitLines csvData = splitLines_loop [] csvData"

text \<open>\<open>key.split('_')\<close>, and in general \<open>s.split(sep)\<close> for a one-character separator.\<close>

fun splitOn_loop :: "char \<Rightarrow> string \<Rightarrow> string \<Rightarrow> string list" where
  "splitOn_loop sep cur [] = [cur]"
| "splitOn_loop sep cur (c # cs) =
     (if c = sep then cur # splitOn_loop sep [] cs else splitOn_loop sep (cur @ [c]) cs)"

definition splitOn :: "char \<Rightarrow> string \<Rightarrow> string list" where
  "splitOn sep s = splitOn_loop sep [] s"

text \<open>
  White space as \<open>trim\<close> and \<open>parseInt\<close> skip it, among the code units below 256: tab,
  line feed, vertical tab, form feed, carriage return, space and no-break space.
\<close>

definition isWhiteSpace :: "char \<Rightarrow> bool" where
  "isWhiteSpace c = (c \<in> set [CHR 0x09, CHR 0x0A, CHR 0x0B, CHR 0x0C, CHR 0x0D, CHR 0x20, CHR 0xA0])"

text \<open>\<open>!row.trim()\<close>: the row is empty once trimmed.\<close>

definition isBlankRow :: "string \<Rightarrow> bool" where
  "isBlankRow row = list_all isWhiteSpace row"

text \<open>
  \<open>parseInt(string)\<close> without a radix: leading white space is skipped, a sign is read, a
  prefix \<open>0x\<close> or \<open>0X\<close> selects base 16, and the longest run of digits of the base is
  the value; without a digit the result is \<open>NaN\<close>. The value is kept exact.
\<close>

definition digitValue :: "char \<Rightarrow> nat option" where
  "digitValue c =
     map_of (zip ''0123456789abcdefABCDEF'' [0, 1, 2, 3, 4, 5, 6, 7, 8, 9, 10, 11, 12, 13, 14, 15,
                                            10, 11, 12, 13, 14, 15]) c"

definition isRadixDigit :: "nat \<Rightarrow> char \<Rightarrow> bool" where
  "isRadixDigit radix c = (case digitValue c of None \<Rightarrow> False | Some v \<Rightarrow> v < radix)"

definition radixValue :: "nat \<Rightarrow> string \<Rightarrow> nat" where
  "radixValue radix ds =
     foldl (\<lambda>acc c. acc * radix + (case digitValue c of None \<Rightarrow> 0 | Some v \<Rightarrow> v)) 0 ds"

definition parseDigits :: "int \<Rightarrow> nat \<Rightarrow> string \<Rightarrow> jsval" where
  "parseDigits sign radix s =
     (let ds = takeWhile (isRadixDigit radix) s
      in if ds = [] then NaN else Num (sign * int (radixValue radix ds)))"

fun parseRadix :: "int \<Rightarrow> string \<Rightarrow> jsval" where
  "parseRadix sign (c0 # cx # cs) =
     (if c0 = CHR ''0'' \<and> (cx = CHR ''x'' \<or> cx = CHR ''X'') then parseDigits sign 16 cs
      else parseDigits sign 10 (c0 # cx # cs))"
| "parseRadix sign s = parseDigits sign 10 s"

fun parseSign :: "string \<Rightarrow> jsval" where
  "parseSign (c # cs) =
     (if c = CHR ''-'' then parseRadix (- 1) cs
      else if c = CHR ''+'' then parseRadix 1 cs
      else parseRadix 1 (c # cs))"
| "parseSign [] = parseRadix 1 []"

definition parseInt :: "jsval \<Rightarrow> jsval" where
  "parseInt v = parseSign (dropWhile isWhiteSpace (String v))"

text \<open>
  Objects used as maps. \<open>getOwn\<close> reads an own property, \<open>putOwn\<close> writes one: in place
  when the key is there, at the end otherwise. The objects are created with \<open>{}\<close>, so
  they inherit from \<open>Object.prototype\<close>: reading one of its property names that is not
  an own property finds the inherited value, and assigning \<open>__proto__\<close> creates no own
  property.
\<close>

fun putOwn :: "string \<Rightarrow> 'v \<Rightarrow> (string \<times> 'v) list \<Rightarrow> (string \<times> 'v) list" where
  "putOwn k v [] = [(k, v)]"
| "putOwn k v (p # ps) = (if fst p = k then (k, v) # ps else p # putOwn k v ps)"

definition objectPrototypeNames :: "string list" where
  "objectPrototypeNames =
     [''constructor'', ''__defineGetter__'', ''__defineSetter__'', ''hasOwnProperty'',
      ''__lookupGetter__'', ''__lookupSetter__'', ''isPrototypeOf'', ''propertyIsEnumerable'',
      ''toString'', ''valueOf'', ''__proto__'', ''toLocaleString'']"

definition setProperty :: "string \<Rightarrow> 'v \<Rightarrow> (string \<times> 'v) list \<Rightarrow> (string \<times> 'v) list" where
  "setProperty k v obj = (if k = ''__proto__'' then obj else putOwn k v obj)"

text \<open>
  \<open>if (!history[date]) history[date] = []; history[date].push(entry)\<close>. For an inherited
  name \<open>history[date]\<close> is truthy and has no \<open>push\<close>: the call throws a \<open>TypeError\<close>.
\<close>

definition pushEntry :: "string \<Rightarrow> 'e \<Rightarrow> (string \<times> 'e list) list \<Rightarrow> error + (string \<times> 'e list) list" where
  "pushEntry date entry history =
     (case map_of history date of
        Some entries \<Rightarrow> Inr (putOwn date (entries @ [entry]) history)
      | None \<Rightarrow>
          if date \<in> set objectPrototypeNames then Inl TypeError
          else Inr (putOwn date [entry] history))"

text \<open>
  \<open>headerMap\<close>: each header name to its column, the last one when a name is repeated;
  \<open>row[headerMap.name]\<close> is \<open>undefined\<close> when the header has no such column or the row
  is too short.
\<close>

definition headerMap :: "string list \<Rightarrow> string \<Rightarrow> nat option" where
  "headerMap hs name = map_of (rev (zip hs [0..<length hs])) name"

definition cell :: "string list \<Rightarrow> string list \<Rightarrow> string \<Rightarrow> jsval" where
  "cell hs row name =
     (case headerMap hs name of
        None \<Rightarrow> Undefined
      | Some i \<Rightarrow> if i < length row then Str (row ! i) else Undefined)"

text \<open>The local \<open>importedData\<close> of \<open>parseCSVData\<close>.\<close>

record importedData = trackedData +
  meta_version :: jsval
  meta_exportDate :: jsval

text \<open>Its initial value; \<open>now\<close> stands for \<open>new Date().toISOString()\<close>.\<close>

definition initialImportedData :: "string \<Rightarrow> importedData" where
  "initialImportedData now =
     \<lparr>water_goal = Null, water_intake = Null, water_history = [],
      protein_goal = Null, protein_intake = Null, protein_history = [],
      workout_state = [], workout_count = [], workout_history = [],
      habits_data = [], settings_theme = Null, settings_reminder = Null,
      meta_version = Str ''2.0'', meta_exportDate = Str now\<rparr>"

text \<open>
  \<open>while (data.length <= index) data.push({ history: {} })\<close>, for an index that is a
  natural number.
\<close>

definition placeholderHabit :: habit where
  "placeholderHabit = \<lparr>h_name = Undefined, h_color = Undefined, h_history = []\<rparr>"

definition padHabits :: "nat \<Rightarrow> habit list \<Rightarrow> habit list" where
  "padHabits index data = data @ replicate (Suc index - length data) placeholderHabit"

text \<open>
  The \<open>case 'habit'\<close> branch. With an index that is \<open>NaN\<close> or negative the loop does
  nothing and \<open>data[habitIndex].history\<close> reads a property of \<open>undefined\<close>.
\<close>

definition decodeHabit :: "jsval \<Rightarrow> jsval \<Rightarrow> jsval \<Rightarrow> habit list \<Rightarrow> error + habit list" where
  "decodeHabit key habitName habitColor data =
     (case parseInt key of
        Num habitIndex \<Rightarrow>
          if habitIndex < 0 then Inl TypeError
          else
            let data' = padHabits (nat habitIndex) data
            in Inr (data'[nat habitIndex :=
                 \<lparr>h_name = habitName, h_color = habitColor,
                  h_history = h_history (data' ! nat habitIndex)\<rparr>])
      | _ \<Rightarrow> Inl TypeError)"

text \<open>
  The \<open>case 'habit_history'\<close> branch: \<open>const [habitIdx, historyDate] = key.split('_')\<close>
  takes the first two pieces of the key; an \<open>undefined\<close> key has no \<open>split\<close>.
\<close>

definition decodeHabitHistory :: "jsval \<Rightarrow> jsval \<Rightarrow> habit list \<Rightarrow> error + habit list" where
  "decodeHabitHistory key status data =
     (case key of
        Str k \<Rightarrow>
          let pieces = splitOn CHR ''_'' k;
              habitIdx = hd pieces;
              historyDate = (if length pieces > 1 then Str (pieces ! 1) else Undefined)
          in (case parseInt (Str habitIdx) of
                Num idx \<Rightarrow>
                  if idx < 0 then Inl TypeError
                  else
                    let data' = padHabits (nat idx) data;
                        h = data' ! nat idx
                    in Inr (data'[nat idx :=
                         h\<lparr>h_history := setProperty (String historyDate) status (h_history h)\<rparr>])
              | _ \<Rightarrow> Inl TypeError)
      | _ \<Rightarrow> Inl TypeError)"

text \<open>
  The bodies of the \<open>switch (dataType)\<close> cases, each for the header \<open>hs\<close>, the data so
  far and the parsed row; \<open>key\<close> and \<open>value\<close> are \<open>row[headerMap.key]\<close> and
  \<open>row[headerMap.value]\<close>.
\<close>

definition caseMeta :: "string list \<Rightarrow> importedData \<Rightarrow> string list \<Rightarrow> error + importedData" where
  "caseMeta hs imp row =
     (let key = cell hs row ''key''; value = cell hs row ''value''
      in Inr (imp\<lparr>meta_version := (if key = Str ''version'' then value else meta_version imp),
                  meta_exportDate := (if key = Str ''exportDate'' then value else meta_exportDate imp)\<rparr>))"

definition caseWater :: "string list \<Rightarrow> importedData \<Rightarrow> string list \<Rightarrow> error + importedData" where
  "caseWater hs imp row =
     (let key = cell hs row ''key''; value = cell hs row ''value''
      in Inr (imp\<lparr>water_goal := (if key = Str ''goal'' then value else water_goal imp),
                  water_intake := (if key = Str ''intake'' then value else water_intake imp)\<rparr>))"

definition caseWaterHistory :: "string list \<Rightarrow> importedData \<Rightarrow> string list \<Rightarrow> error + importedData" where
  "caseWaterHistory hs imp row =
     (case pushEntry (String (cell hs row ''date''))
             \<lparr>e_amount = parseInt (cell hs row ''amount''),
              e_timestamp = cell hs row ''timestamp''\<rparr> (water_history imp) of
        Inl e \<Rightarrow> Inl e
      | Inr history \<Rightarrow> Inr (imp\<lparr>water_history := history\<rparr>))"

definition caseProtein :: "string list \<Rightarrow> importedData \<Rightarrow> string list \<Rightarrow> error + importedData" where
  "caseProtein hs imp row =
     (let key = cell hs row ''key''; value = cell hs row ''value''
      in Inr (imp\<lparr>protein_goal := (if key = Str ''goal'' then value else protein_goal imp),
                  protein_intake := (if key = Str ''intake'' then value else protein_intake imp)\<rparr>))"

definition caseProteinHistory :: "string list \<Rightarrow> importedData \<Rightarrow> string list \<Rightarrow> error + importedData" where
  "caseProteinHistory hs imp row =
     (case pushEntry (String (cell hs row ''date''))
             \<lparr>e_amount = parseInt (cell hs row ''amount''),
              e_timestamp = cell hs row ''timestamp''\<rparr> (protein_history imp) of
        Inl e \<Rightarrow> Inl e
      | Inr history \<Rightarrow> Inr (imp\<lparr>protein_history := history\<rparr>))"

definition caseWorkoutState :: "string list \<Rightarrow> importedData \<Rightarrow> string list \<Rightarrow> error + importedData" where
  "caseWorkoutState hs imp row =
     Inr (imp\<lparr>workout_state :=
            setProperty (String (cell hs row ''type''))
              \<lparr>ws_completed = Bool (cell hs row ''completed'' = Str ''true''),
               ws_order = parseInt (cell hs row ''order'')\<rparr> (workout_state imp)\<rparr>)"

definition caseWorkoutCount :: "string list \<Rightarrow> importedData \<Rightarrow> string list \<Rightarrow> error + importedData" where
  "caseWorkoutCount hs imp row =
     Inr (imp\<lparr>workout_count :=
            setProperty (String (cell hs row ''type'')) (parseInt (cell hs row ''count''))
              (workout_count imp)\<rparr>)"

definition caseWorkoutHistory :: "string list \<Rightarrow> importedData \<Rightarrow> string list \<Rightarrow> error + importedData" where
  "caseWorkoutHistory hs imp row =
     (case pushEntry (String (cell hs row ''date''))
             \<lparr>w_type = cell hs row ''type'',
              w_count = parseInt (cell hs row ''count''),
              w_timestamp = cell hs row ''timestamp''\<rparr> (workout_history imp) of
        Inl e \<Rightarrow> Inl e
      | Inr history \<Rightarrow> Inr (imp\<lparr>workout_history := history\<rparr>))"

definition caseHabit :: "string list \<Rightarrow> importedData \<Rightarrow> string list \<Rightarrow> error + importedData" where
  "caseHabit hs imp row =
     (case decodeHabit (cell hs row ''key'') (cell hs row ''name'') (cell hs row ''color'')
             (habits_data imp) of
        Inl e \<Rightarrow> Inl e
      | Inr data \<Rightarrow> Inr (imp\<lparr>habits_data := data\<rparr>))"

definition caseHabitHistory :: "string list \<Rightarrow> importedData \<Rightarrow> string list \<Rightarrow> error + importedData" where
  "caseHabitHistory hs imp row =
     (case decodeHabitHistory (cell hs row ''key'') (cell hs row ''value'') (habits_data imp) of
        Inl e \<Rightarrow> Inl e
      | Inr data \<Rightarrow> Inr (imp\<lparr>habits_data := data\<rparr>))"

definition caseSettings :: "string list \<Rightarrow> importedData \<Rightarrow> string list \<Rightarrow> error + importedData" where
  "caseSettings hs imp row =
     (let key = cell hs row ''key''; value = cell hs row ''value''
      in Inr (imp\<lparr>settings_theme := (if key = Str ''theme'' then value else settings_theme imp),
                  settings_reminder := (if key = Str ''reminder'' then value else settings_reminder imp)\<rparr>))"

text \<open>
  One pass of the loop body for a row that is not blank, after \<open>parseCSVRow\<close>: the
  \<open>switch\<close>. A \<open>data_type\<close> that matches no case, \<open>undefined\<close> included, leaves the
  data as it is.
\<close>

definition decodeRow :: "string list \<Rightarrow> importedData \<Rightarrow> string list \<Rightarrow> error + importedData" where
  "decodeRow hs imp row =
     (let dataType = cell hs row ''data_type''
      in
      if dataType = Str ''meta'' then caseMeta hs imp row
      else if dataType = Str ''water'' then caseWater hs imp row
      else if dataType = Str ''water_history'' then caseWaterHistory hs imp row
      else if dataType = Str ''protein'' then caseProtein hs imp row
      else if dataType = Str ''protein_history'' then caseProteinHistory hs imp row
      else if dataType = Str ''workout_state'' then caseWorkoutState hs imp row
      else if dataType = Str ''workout_count'' then caseWorkoutCount hs imp row
      else if dataType = Str ''workout_history'' then caseWorkoutHistory hs imp row
      else if dataType = Str ''habit'' then caseHabit hs imp row
      else if dataType = Str ''habit_history'' then caseHabitHistory hs imp row
      else if dataType = Str ''settings'' then caseSettings hs imp row
      else Inr imp)"

text \<open>
  The loop \<open>for (let i = 1; i < rows.length; i++)\<close>; a thrown error ends it.
\<close>

definition decodeStep :: "string list \<Rightarrow> error + importedData \<Rightarrow> string \<Rightarrow> error + importedData" where
  "decodeStep hs acc row =
     (case acc of
        Inl e \<Rightarrow> Inl e
      | Inr imp \<Rightarrow> if isBlankRow row then Inr imp else decodeRow hs imp (parseCSVRow row))"

text \<open>
  \<open>parseCSVData\<close> up to its \<open>return\<close>: the value is the local \<open>importedData\<close>. The
  \<open>return\<close> statement copies its fields and passes the histories, the workout state and
  count and the habit list through \<open>JSON.stringify\<close>, which is where a \<open>NaN\<close> becomes
  \<open>null\<close>.
\<close>

definition parseCSVData :: "string \<Rightarrow> string \<Rightarrow> error + importedData" where
  "parseCSVData now csvData =
     (let rows = splitLines csvData
      in if length rows < 2 then Inl FormatError
         else foldl (decodeStep (parseCSVRow (hd rows))) (Inr (initialImportedData now)) (tl rows))"

section \<open>Import into local storage (\<open>importData\<close>)\<close>

text \<open>
  \<open>localStorage\<close> is the list of its key/value pairs, in the order \<open>localStorage.key(i)\<close>
  enumerates them. Its size is measured as \<open>storageManager.getUsage\<close> measures it, and
  \<open>setItem\<close> is rejected with a \<open>QuotaError\<close> when the size after the write would
  exceed the capacity.
\<close>

type_synonym storage = "(string \<times> string) list"

definition getUsage :: "storage \<Rightarrow> nat" where
  "getUsage store = sum_list (map (\<lambda>(key, value). length key + length value) store)"

definition setItem :: "nat \<Rightarrow> string \<Rightarrow> string \<Rightarrow> storage \<Rightarrow> error + storage" where
  "setItem capacity key value store =
     (if getUsage (putOwn key value store) > capacity then Inl QuotaError
      else Inr (putOwn key value store))"

text \<open>
  The value \<open>parseCSVData\<close> returns: the scalars as read, everything else as JSON text.
\<close>

record parsedCSV =
  p_water_goal :: jsval
  p_water_intake :: jsval
  p_water_history :: string
  p_protein_goal :: jsval
  p_protein_intake :: jsval
  p_protein_history :: string
  p_workout_state :: string
  p_workout_count :: string
  p_workout_history :: string
  p_habits_data :: string
  p_settings_theme :: jsval
  p_settings_reminder :: jsval

text \<open>
  The constants \<open>STORAGE_KEYS\<close> of core-scripts.js that \<open>importData\<close> uses, with the
  values given there. \<open>importData\<close> takes the constants as an argument, so what is proved
  of it holds for these values and for any others.
\<close>

record storageKeys =
  GOAL_PREFIX :: string
  INTAKE_PREFIX :: string
  HISTORY_PREFIX :: string
  THEME :: string
  REMINDER :: string

definition STORAGE_KEYS :: storageKeys where
  "STORAGE_KEYS = \<lparr>GOAL_PREFIX = ''goal_'', INTAKE_PREFIX = ''intake_'', HISTORY_PREFIX = ''history_'',
                   THEME = ''app_theme'', REMINDER = ''global_reminder''\<rparr>"

text \<open>The truth value of a value in \<open>if (value)\<close>.\<close>

fun truthy :: "jsval \<Rightarrow> bool" where
  "truthy Undefined = False"
| "truthy Null = False"
| "truthy (Bool b) = b"
| "truthy (Num i) = (i \<noteq> 0)"
| "truthy NaN = False"
| "truthy (Str s) = (s \<noteq> [])"

text \<open>
  The writes of the \<open>try\<close> block, in order: whether the guard holds, the key, the value
  (\<open>setItem\<close> stores the string form).
\<close>

definition importWrites :: "storageKeys \<Rightarrow> parsedCSV \<Rightarrow> (bool \<times> string \<times> string) list" where
  "importWrites K importedData =
     [(truthy (p_water_goal importedData), GOAL_PREFIX K @ ''water'', String (p_water_goal importedData)),
      (truthy (p_water_intake importedData), INTAKE_PREFIX K @ ''water'', String (p_water_intake importedData)),
      (p_water_history importedData \<noteq> [], HISTORY_PREFIX K @ ''water'', p_water_history importedData),
      (truthy (p_protein_goal importedData), GOAL_PREFIX K @ ''protein'', String (p_protein_goal importedData)),
      (truthy (p_protein_intake importedData), INTAKE_PREFIX K @ ''protein'', String (p_protein_intake importedData)),
      (p_protein_history importedData \<noteq> [], HISTORY_PREFIX K @ ''protein'', p_protein_history importedData),
      (p_workout_state importedData \<noteq> [], ''workout_state'', p_workout_state importedData),
      (p_workout_count importedData \<noteq> [], ''workout_count'', p_workout_count importedData),
      (p_workout_history importedData \<noteq> [], ''workout_history'', p_workout_history importedData),
      (p_habits_data importedData \<noteq> [], ''habits_data'', p_habits_data importedData),
      (truthy (p_settings_theme importedData), THEME K, String (p_settings_theme importedData)),
      (truthy (p_settings_reminder importedData), REMINDER K, String (p_settings_reminder importedData))]"

text \<open>Running guarded writes until one is rejected.\<close>

fun runWrites :: "nat \<Rightarrow> (bool \<times> string \<times> string) list \<Rightarrow> storage \<Rightarrow> error + storage" where
  "runWrites capacity [] store = Inr store"
| "runWrites capacity ((guard, key, value) # ws) store =
     (if guard then
        (case setItem capacity key value store of
           Inl e \<Rightarrow> Inl e
         | Inr store' \<Rightarrow> runWrites capacity ws store')
      else runWrites capacity ws store)"

text \<open>
  \<open>const backup = {}; for (...) backup[key] = localStorage.getItem(key)\<close>: the backup is
  an object, so a key \<open>__proto__\<close> is not recorded.
\<close>

definition takeBackup :: "storage \<Rightarrow> (string \<times> string) list" where
  "takeBackup store = foldl (\<lambda>backup (key, value). setProperty key value backup) [] store"

datatype importOutcome =
    Cancelled
  | Imported
  | PreviousDataRestored
  | RestoreInterrupted

text \<open>
  \<open>localStorage.clear(); Object.keys(backup).forEach(key => localStorage.setItem(key, backup[key]))\<close>.
  A write rejected here leaves the \<open>catch\<close> block with the store as far as it was
  rebuilt.
\<close>

fun restoreFrom :: "nat \<Rightarrow> (string \<times> string) list \<Rightarrow> storage \<Rightarrow> importOutcome \<times> storage" where
  "restoreFrom capacity [] store = (PreviousDataRestored, store)"
| "restoreFrom capacity ((key, value) # backup) store =
     (case setItem capacity key value store of
        Inl e \<Rightarrow> (RestoreInterrupted, store)
      | Inr store' \<Rightarrow> restoreFrom capacity backup store')"

text \<open>
  The part of \<open>importData\<close> from the \<open>confirm\<close> dialog on, after the file has been read,
  parsed and found small enough: the answer to the dialog, the capacity of the store, the
  storage keys, the parsed data and the store before. The result is what the user is
  told and the store after.
\<close>

definition importData :: "bool \<Rightarrow> nat \<Rightarrow> storageKeys \<Rightarrow> parsedCSV \<Rightarrow> storage \<Rightarrow> importOutcome \<times> storage" where
  "importData confirmed capacity K importedData store =
     (if \<not> confirmed then (Cancelled, store)
      else
        let backup = takeBackup store
        in (case runWrites capacity (importWrites K importedData) store of
              Inr store' \<Rightarrow> (Imported, store')
            | Inl storageError \<Rightarrow> restoreFrom capacity backup []))"

text \<open>
  A worked example: a store of two keys with room for 50 characters, and an import whose
  third write does not fit.
\<close>

definition sampleStore :: storage where
  "sampleStore = [(''goal_water'', ''2000''), (''app_theme'', ''dark-theme'')]"

definition sampleImport :: parsedCSV where
  "sampleImport =
     \<lparr>p_water_goal = Str ''2500'', p_water_intake = Str ''100'', p_water_history = ''{}'',
      p_protein_goal = Null, p_protein_intake = Null, p_protein_history = ''{}'',
      p_workout_state = ''{}'', p_workout_count = ''{}'', p_workout_history = ''{}'',
      p_habits_data = ''[]'', p_settings_theme = Str ''light-theme'', p_settings_reminder = Null\<rparr>"

section \<open>Writing and reading back: what is compared\<close>

















definition flatHistory :: "(string \<times> 'e list) list \<Rightarrow> (string \<times> 'e) list" where
  "flatHistory history = concat (map (\<lambda>(date, entries). map (Pair date) entries) history)"







section \<open>Properties of the tokenizer\<close>

lemma parseCSVRow_loop_nonempty: "parseCSVRow_loop s q cur res \<noteq> []"
  by (induction s q cur res rule: parseCSVRow_loop.induct) (auto split: list.splits)

lemma parseCSVRow_loop_inside_noquote:
  "dquote \<notin> set rest \<Longrightarrow> parseCSVRow_loop rest True cur res = res @ [cur @ rest]"
  by (induction rest arbitrary: cur) auto

lemma parseCSVRow_loop_outside_append:
  "dquote \<notin> set pre \<Longrightarrow>
   parseCSVRow_loop (pre @ s) False cur res =
   parseCSVRow_loop s False (last (parseCSVRow_loop pre False cur res))
     (butlast (parseCSVRow_loop pre False cur res))"
  by (induction pre arbitrary: cur res) auto

lemma parseCSVRow_unclosed:
  "dquote \<notin> set pre \<Longrightarrow> dquote \<notin> set rest \<Longrightarrow>
   parseCSVRow (pre @ dquote # rest) = butlast (parseCSVRow pre) @ [last (parseCSVRow pre) @ rest]"
  unfolding parseCSVRow_def
  by (cases rest) (auto simp: parseCSVRow_loop_outside_append parseCSVRow_loop_inside_noquote)

lemma parseCSVRow_loop_plain:
  "comma \<notin> set f \<Longrightarrow> dquote \<notin> set f \<Longrightarrow>
   parseCSVRow_loop (f @ rest) q cur res = parseCSVRow_loop rest q (cur @ f) res"
  by (induction f arbitrary: cur) auto

lemma parseCSVRow_loop_quoted_body:
  "rest = [] \<or> hd rest \<noteq> dquote \<Longrightarrow>
   parseCSVRow_loop (replaceQuotes f @ dquote # rest) True cur res =
   parseCSVRow_loop rest False (cur @ f) res"
proof (induction f arbitrary: cur)
  case Nil
  then show ?case by (cases rest) (auto simp: replaceQuotes_def)
next
  case (Cons c f)
  then show ?case
    by (cases "replaceQuotes f @ dquote # rest") (auto simp: replaceQuotes_def)
qed

text \<open>
  The opening quote of a quoted field is read outside quotes. When the field itself starts
  with a quote, the opening quote and the first doubled quote are taken for an escaped
  pair; the scan recovers at the first character that is not a quote, and never recovers
  when there is none.
\<close>

lemma parseCSVRow_loop_quoted_open:
  "rest = [] \<or> hd rest \<noteq> dquote \<Longrightarrow>
   parseCSVRow_loop (dquote # replaceQuotes g @ dquote # rest) False cur res =
   parseCSVRow_loop rest False (cur @ (if set g \<subseteq> {dquote} then g @ [dquote] else g)) res"
proof (induction g arbitrary: cur)
  case Nil
  then show ?case by (cases rest) (auto simp: replaceQuotes_def)
next
  case (Cons c g)
  show ?case
  proof (cases "c = dquote")
    case True
    have "replaceQuotes (c # g) = dquote # dquote # replaceQuotes g"
      using True by (simp add: replaceQuotes_def)
    then show ?thesis using Cons.IH[OF Cons.prems, of "cur @ [dquote]"] True by simp
  next
    case False
    have r: "replaceQuotes (c # g) = c # replaceQuotes g"
      using False by (simp add: replaceQuotes_def)
    show ?thesis
      using False parseCSVRow_loop_quoted_body[OF Cons.prems, of g "cur @ [c]" res]
      by (simp add: r)
  qed
qed

lemma parseCSVRow_loop_escaped_field:
  assumes "rest = [] \<or> hd rest = comma"
  shows "parseCSVRow_loop (escapeCSV v @ rest) False [] res =
         parseCSVRow_loop rest False (rereadField (fieldText v)) res"
proof (cases "v = Null \<or> v = Undefined")
  case True
  then show ?thesis by (auto simp: escapeCSV_def fieldText_def rereadField_def onlyQuotes_def)
next
  case False
  let ?s = "String v"
  have ft: "fieldText v = ?s" using False by (simp add: fieldText_def)
  have rest': "rest = [] \<or> hd rest \<noteq> dquote" using assms by auto
  show ?thesis
  proof (cases "comma \<in> set ?s \<or> dquote \<in> set ?s \<or> newline \<in> set ?s")
    case True
    then have ne: "?s \<noteq> []" by auto
    have "escapeCSV v = dquote # replaceQuotes ?s @ [dquote]"
      using False True by (simp add: escapeCSV_def Let_def)
    then show ?thesis
      using parseCSVRow_loop_quoted_open[OF rest', of ?s "[]" res] ne
      by (simp add: ft rereadField_def onlyQuotes_def)
  next
    case F2: False
    then have "escapeCSV v = ?s" using False by (simp add: escapeCSV_def Let_def)
    moreover have "\<not> onlyQuotes ?s" using F2 by (cases ?s) (auto simp: onlyQuotes_def)
    ultimately show ?thesis
      using parseCSVRow_loop_plain[of ?s rest False "[]" res] F2
      by (simp add: ft rereadField_def)
  qed
qed

lemma parseCSVRow_loop_join_escaped:
  "vs \<noteq> [] \<Longrightarrow>
   parseCSVRow_loop (join '','' (map escapeCSV vs)) False [] res =
   res @ map (\<lambda>v. rereadField (fieldText v)) vs"
proof (induction vs arbitrary: res)
  case Nil
  then show ?case by simp
next
  case (Cons v vs)
  show ?case
  proof (cases vs)
    case Nil
    then show ?thesis using parseCSVRow_loop_escaped_field[of "[]" v res] by simp
  next
    case (Cons w ws)
    have "parseCSVRow_loop (join '','' (map escapeCSV (v # vs))) False [] res =
          parseCSVRow_loop (escapeCSV v @ comma # join '','' (map escapeCSV vs)) False [] res"
      using Cons by simp
    also have "\<dots> = parseCSVRow_loop (comma # join '','' (map escapeCSV vs)) False
                        (rereadField (fieldText v)) res"
      by (rule parseCSVRow_loop_escaped_field) simp
    also have "\<dots> = parseCSVRow_loop (join '','' (map escapeCSV vs)) False []
                        (res @ [rereadField (fieldText v)])"
      by simp
    also have "\<dots> = (res @ [rereadField (fieldText v)]) @ map (\<lambda>v. rereadField (fieldText v)) vs"
      using Cons.IH[of "res @ [rereadField (fieldText v)]"] Cons by simp
    finally show ?thesis by simp
  qed
qed

text \<open>What the tokenizer reads back from any escaped, comma-joined row of at least one field.\<close>

lemma parseCSVRow_join_escaped:
  "vs \<noteq> [] \<Longrightarrow>
   parseCSVRow (join '','' (map escapeCSV vs)) = map (\<lambda>v. rereadField (fieldText v)) vs"
  by (simp add: parseCSVRow_def parseCSVRow_loop_join_escaped)

subsection \<open>Claim C8\<close>

text \<open>
  C8. \<open>parseCSVRow\<close> is total and never fails: every input string gives a list of at least
  one field, the empty string gives the single empty field, and an unclosed quote makes the
  rest of the line (commas included) part of the last field. The third conjunct states
  this for any point of the scan that is inside quotes, the fourth for a row whose first
  quote is never closed.
\<close>

theorem parseCSVRow_total:
  "length (parseCSVRow row) \<ge> 1 \<and>
   parseCSVRow [] = [[]] \<and>
   (dquote \<notin> set rest \<longrightarrow> parseCSVRow_loop rest True cur res = res @ [cur @ rest]) \<and>
   (dquote \<notin> set pre \<and> dquote \<notin> set rest \<longrightarrow>
      parseCSVRow (pre @ dquote # rest) = butlast (parseCSVRow pre) @ [last (parseCSVRow pre) @ rest])"
proof -
  have "parseCSVRow row \<noteq> []"
    by (simp add: parseCSVRow_def parseCSVRow_loop_nonempty)
  then have "length (parseCSVRow row) \<ge> 1"
    by (cases "parseCSVRow row") simp_all
  moreover have "parseCSVRow [] = [[]]"
    by (simp add: parseCSVRow_def)
  ultimately show ?thesis
    using parseCSVRow_loop_inside_noquote parseCSVRow_unclosed by blast
qed

theorem parseCSVRow_total_witness:
  "dquote \<notin> set ''a,b'' \<and> dquote \<notin> set ''c,d'' \<and>
   length (parseCSVRow (''a,b'' @ dquote # ''c,d'')) \<ge> 1 \<and>
   parseCSVRow_loop ''c,d'' True ''b'' [''a''] = [''a'', ''bc,d''] \<and>
   parseCSVRow (''a,b'' @ dquote # ''c,d'') = [''a'', ''bc,d'']"
  using parseCSVRow_total [of "''a,b'' @ dquote # ''c,d''" "''c,d''" "''b''" "[''a'']" "''a,b''"]
  by (simp add: parseCSVRow_def)

subsection \<open>Claim C7\<close>

text \<open>
  C7. The specification's scan treats two quotes in a row as an escaped quote only while
  inside quotes. \<open>parseCSVRow\<close> does so outside quotes as well, and the two disagree: on
  the row of two double quotes (an empty quoted field) the code returns one field holding
  a double quote where the specified scan returns one empty field; on
  \<open>a,"",b\<close> the code's middle field is a double quote, the specified scan's is empty.
\<close>

theorem parseCSVRow_not_spec_scan:
  "parseCSVRow [dquote, dquote] = [[dquote]] \<and>
   parseRow_spec [dquote, dquote] = [[]] \<and>
   parseCSVRow (''a,'' @ [dquote, dquote] @ '',b'') = [''a'', [dquote], ''b''] \<and>
   parseRow_spec (''a,'' @ [dquote, dquote] @ '',b'') = [''a'', [], ''b'']"
  by (simp add: parseCSVRow_def parseRow_spec_def)

subsection \<open>Claim C2\<close>

text \<open>
  C2 as stated fails twice. The empty field list joins to the empty string, which reads
  back as one empty field. The field that is a single double quote is written as four
  double quotes, which read back as two.
\<close>

theorem escape_parse_roundtrip_counterexample:
  "parseCSVRow (join '','' (map escapeCSV [])) \<noteq> map fieldText [] \<and>
   escapeCSV (Str [dquote]) = [dquote, dquote, dquote, dquote] \<and>
   parseCSVRow (join '','' (map escapeCSV [Str [dquote]])) = [[dquote, dquote]] \<and>
   parseCSVRow (join '','' (map escapeCSV [Str [dquote]])) \<noteq> map fieldText [Str [dquote]]"
  by (simp add: parseCSVRow_def escapeCSV_def replaceQuotes_def fieldText_def)

text \<open>
  C2, amended. For every non-empty list of fields in which no field consists of double
  quotes only, parsing the comma-join of the escaped fields returns the fields; \<open>null\<close>
  and \<open>undefined\<close> are written, and read back, as the empty string. Fields with commas,
  quotes or newlines inside are covered.
\<close>

theorem escape_parse_roundtrip:
  assumes "vs \<noteq> []" and "\<forall>v \<in> set vs. \<not> onlyQuotes (fieldText v)"
  shows "parseCSVRow (join '','' (map escapeCSV vs)) = map fieldText vs \<and>
         escapeCSV Null = [] \<and> escapeCSV Undefined = [] \<and>
         fieldText Null = [] \<and> fieldText Undefined = [] \<and> (\<forall>s. fieldText (Str s) = s)"
proof -
  have "map (\<lambda>v. rereadField (fieldText v)) vs = map fieldText vs"
    using assms(2) by (simp add: rereadField_def)
  then show ?thesis
    using parseCSVRow_join_escaped[OF assms(1)] by (simp add: escapeCSV_def fieldText_def)
qed

theorem escape_parse_roundtrip_witness:
  "[Str (''a,b'' @ [dquote] @ ''c''), Null, Str ''x''] \<noteq> [] \<and>
   \<not> onlyQuotes (fieldText (Str (''a,b'' @ [dquote] @ ''c''))) \<and>
   \<not> onlyQuotes (fieldText Null) \<and> \<not> onlyQuotes (fieldText (Str ''x'')) \<and>
   escapeCSV (Str (''a,b'' @ [dquote] @ ''c'')) = [dquote] @ ''a,b'' @ [dquote, dquote] @ ''c'' @ [dquote] \<and>
   parseCSVRow (join '','' (map escapeCSV [Str (''a,b'' @ [dquote] @ ''c''), Null, Str ''x''])) =
     [''a,b'' @ [dquote] @ ''c'', [], ''x'']"
proof -
  have h: "\<forall>v \<in> set [Str (''a,b'' @ [dquote] @ ''c''), Null, Str ''x'']. \<not> onlyQuotes (fieldText v)"
    by (simp add: onlyQuotes_def fieldText_def)
  have e: "escapeCSV (Str (''a,b'' @ [dquote] @ ''c'')) =
           [dquote] @ ''a,b'' @ [dquote, dquote] @ ''c'' @ [dquote]"
    by (simp add: escapeCSV_def replaceQuotes_def)
  show ?thesis
    using escape_parse_roundtrip [of "[Str (''a,b'' @ [dquote] @ ''c''), Null, Str ''x'']"] h e
    by (simp add: fieldText_def escapeCSV_def)
qed

section \<open>Date keys: string order and day numbers\<close>




















section \<open>Properties of the streak analyzer\<close>

lemma splitRuns_nonempty: "ds \<noteq> [] \<Longrightarrow> splitRuns nxt ds \<noteq> []"
  by (induction nxt ds rule: splitRuns.induct) (auto split: list.splits)

lemma splitRuns_single_run: "consecutiveRun nxt r \<Longrightarrow> r \<noteq> [] \<Longrightarrow> splitRuns nxt r = [r]"
  by (induction nxt r rule: consecutiveRun.induct) auto

lemma splitRuns_append_gap:
  "consecutiveRun nxt r \<Longrightarrow> r \<noteq> [] \<Longrightarrow> \<not> nxt (last r) d \<Longrightarrow>
   splitRuns nxt (r @ d # ds) = r # splitRuns nxt (d # ds)"
  by (induction nxt r rule: consecutiveRun.induct) auto

lemma consecutiveRun_snoc:
  "consecutiveRun nxt (r @ [d]) = (consecutiveRun nxt r \<and> (r = [] \<or> nxt (last r) d))"
  by (induction nxt r rule: consecutiveRun.induct) auto

lemma streakOf_snoc:
  "r \<noteq> [] \<Longrightarrow> streakOf (r @ [d]) = (streakOf r)\<lparr>s_end := d, s_length := s_length (streakOf r) + 1\<rparr>"
  by (simp add: streakOf_def)

lemma streakOf_single: "streakOf [d] = newStreak d"
  by (simp add: streakOf_def newStreak_def)

lemma scan_open:
  "consecutiveRun (isNextDay H) r \<Longrightarrow> r \<noteq> [] \<Longrightarrow>
   pushCurrent (foldl (streakStep H) (acc, Some (streakOf r)) ds) = acc @ map streakOf (splitRuns (isNextDay H) (r @ ds))"
proof (induction ds arbitrary: r acc)
  case Nil
  then show ?case by (simp add: splitRuns_single_run)
next
  case (Cons d ds)
  show ?case
  proof (cases "isNextDay H (last r) d")
    case True
    have c: "consecutiveRun (isNextDay H) (r @ [d])" using Cons.prems True by (simp add: consecutiveRun_snoc)
    have e: "s_end (streakOf r) = last r" by (simp add: streakOf_def)
    have "pushCurrent (foldl (streakStep H) (acc, Some (streakOf r)) (d # ds)) =
          pushCurrent (foldl (streakStep H) (acc, Some (streakOf (r @ [d]))) ds)"
      using True Cons.prems by (simp add: e streakOf_snoc)
    also have "\<dots> = acc @ map streakOf (splitRuns (isNextDay H) ((r @ [d]) @ ds))"
      using Cons.IH[OF c] by simp
    finally show ?thesis by simp
  next
    case False
    have e: "s_end (streakOf r) = last r" by (simp add: streakOf_def)
    have "pushCurrent (foldl (streakStep H) (acc, Some (streakOf r)) (d # ds)) =
          pushCurrent (foldl (streakStep H) (acc @ [streakOf r], Some (streakOf [d])) ds)"
      using False by (simp add: e streakOf_single)
    also have "\<dots> = (acc @ [streakOf r]) @ map streakOf (splitRuns (isNextDay H) ([d] @ ds))"
      by (rule Cons.IH) simp_all
    finally show ?thesis
      using splitRuns_append_gap[OF Cons.prems False, where ds = ds] by simp
  qed
qed

lemma scan_splitRuns:
  "pushCurrent (foldl (streakStep H) ([], None) ds) = map streakOf (splitRuns (isNextDay H) ds)"
proof (cases ds)
  case Nil
  then show ?thesis by simp
next
  case (Cons d ds')
  then show ?thesis using scan_open[where r = "[d]" and acc = "[]" and ds = ds' and H = H] by (simp add: streakOf_single)
qed

lemma concat_splitRuns: "concat (splitRuns nxt ds) = ds"
  by (induction nxt ds rule: splitRuns.induct) (auto split: list.splits)

lemma splitRuns_hd_hd: "splitRuns nxt (d # ds) = r # rs \<Longrightarrow> r \<noteq> [] \<and> hd r = d"
  by (induction nxt "d # ds" arbitrary: d ds r rs rule: splitRuns.induct) (auto split: list.splits if_splits)

lemma splitRuns_runs: "r \<in> set (splitRuns nxt ds) \<Longrightarrow> r \<noteq> [] \<and> consecutiveRun nxt r"
proof (induction nxt ds arbitrary: r rule: splitRuns.induct)
  case 1
  then show ?case by simp
next
  case (2 d)
  then show ?case by simp
next
  case (3 nxt d e ds)
  show ?case
  proof (cases "nxt d e")
    case True
    obtain q qs where q: "splitRuns nxt (e # ds) = q # qs"
      using splitRuns_nonempty[where ds = "e # ds" and nxt = nxt] by (cases "splitRuns nxt (e # ds)") auto
    then have hq: "q \<noteq> [] \<and> hd q = e" using splitRuns_hd_hd by blast
    have "r = d # q \<or> r \<in> set qs" using 3(3) True q by auto
    then show ?thesis
    proof
      assume "r = d # q"
      moreover have "consecutiveRun nxt q" using 3(1)[OF True, of q] q by simp
      ultimately show ?thesis using hq True by (cases q) auto
    next
      assume "r \<in> set qs"
      then show ?thesis using 3(1)[OF True, of r] q by simp
    qed
  next
    case False
    then show ?thesis using 3 by auto
  qed
qed



lemma consecutiveRun_mono:
  "consecutiveRun nxt r \<Longrightarrow> (\<And>d e. d \<in> set r \<Longrightarrow> e \<in> set r \<Longrightarrow> nxt d e \<Longrightarrow> nxt' d e) \<Longrightarrow>
   consecutiveRun nxt' r"
proof (induction nxt r rule: consecutiveRun.induct)
  case 1
  then show ?case by simp
next
  case (2 d)
  then show ?case by simp
next
  case (3 nxt d e ds)
  have "nxt' d e" using 3(2,3) by simp
  moreover have "consecutiveRun nxt' (e # ds)"
    by (rule 3(1)) (use 3(2,3) in simp_all)
  ultimately show ?case by simp
qed


lemma isNextDay_bounded:
  assumes "readsDateKey H d" and "readsDateKey H e" and "shiftBounded H d" and "isNextDay H d e"
  shows "calendarNext d e"
proof -
  obtain a where a: "dayIndex d = Some a" using assms(1) by (auto simp: readsDateKey_def)
  obtain b where b: "dayIndex e = Some b" using assms(2) by (auto simp: readsDateKey_def)
  have pd: "dateParse H d = Some (a * msPerDay)" using assms(1) a by (simp add: readsDateKey_def isoDateOnly_def)
  have pe: "dateParse H e = Some (b * msPerDay)" using assms(2) b by (simp add: readsDateKey_def isoDateOnly_def)
  define n where "n = nextDayTime (localTZA H) (a * msPerDay)"
  have bd: "\<bar>n - (a * msPerDay + msPerDay)\<bar> < msPerDay"
    using assms(3) pd by (simp add: shiftBounded_def n_def)
  have eq: "b * msPerDay = n" using assms(4) by (simp add: isNextDay_def pd pe n_def)
  have "\<bar>(b - (a + 1)) * 86400000\<bar> < (86400000::int)"
    using bd eq by (simp add: msPerDay_def algebra_simps)
  then have "b = a + 1" by (cases "b = a + 1") (auto simp: abs_mult)
  then show ?thesis by (simp add: calendarNext_def a b)
qed


lemma consecutiveRun_last_time:
  "consecutiveRun (isNextDay H) r \<Longrightarrow> r \<noteq> [] \<Longrightarrow> dateParse H (hd r) = Some a \<Longrightarrow>
   dateParse H (last r) = Some (localDaysAfter (localTZA H) (length r - 1) a)"
proof (induction r arbitrary: a)
  case Nil
  then show ?case by simp
next
  case (Cons d r)
  show ?case
  proof (cases r)
    case Nil
    then show ?thesis using Cons.prems by simp
  next
    case (Cons e r')
    have n: "isNextDay H d e" and c: "consecutiveRun (isNextDay H) r"
      using Cons.prems(1) Cons by simp_all
    have pe: "dateParse H (hd r) = Some (nextDayTime (localTZA H) a)"
      using n Cons.prems(3) Cons by (auto simp: isNextDay_def split: option.splits)
    have "dateParse H (last r) =
          Some (localDaysAfter (localTZA H) (length r - 1) (nextDayTime (localTZA H) a))"
      by (rule Cons.IH[OF c _ pe]) (simp add: Cons)
    then show ?thesis by (simp add: Cons)
  qed
qed

lemma consecutiveRun_invalid_single:
  "consecutiveRun (isNextDay H) r \<Longrightarrow> r \<noteq> [] \<Longrightarrow> dateParse H (hd r) = None \<Longrightarrow> length r = 1"
  by (cases r; cases "tl r") (auto simp: isNextDay_def split: option.splits)

lemma consecutiveRun_last_day:
  "consecutiveRun calendarNext r \<Longrightarrow> r \<noteq> [] \<Longrightarrow> dayIndex (hd r) = Some a \<Longrightarrow>
   dayIndex (last r) = Some (a + int (length r) - 1)"
proof (induction r arbitrary: a)
  case Nil
  then show ?case by simp
next
  case (Cons d r)
  show ?case
  proof (cases r)
    case Nil
    then show ?thesis using Cons.prems by simp
  next
    case (Cons e r')
    have n: "calendarNext d e" and c: "consecutiveRun calendarNext r"
      using Cons.prems(1) Cons by simp_all
    have pe: "dayIndex (hd r) = Some (a + 1)"
      using n Cons.prems(3) Cons by (auto simp: calendarNext_def split: option.splits)
    have "dayIndex (last r) = Some (a + 1 + int (length r) - 1)"
      by (rule Cons.IH[OF c _ pe]) (simp add: Cons)
    then show ?thesis by (simp add: Cons)
  qed
qed

lemma sorted_concat_member:
  "sorted (concat xss) \<Longrightarrow> xs \<in> set xss \<Longrightarrow> sorted xs"
  by (induction xss) (auto simp: sorted_append)

lemma sorted_hd_le_last: "sorted xs \<Longrightarrow> xs \<noteq> [] \<Longrightarrow> hd xs \<le> last xs"
  by (cases xs) (auto)

lemma sortByLengthDesc_set: "set (sortByLengthDesc xs) = set xs"
  by (simp add: sortByLengthDesc_def)

lemma sortByLengthDesc_sum:
  "sum_list (map s_length (sortByLengthDesc xs)) = sum_list (map s_length xs)"
proof -
  have "mset (map s_length (sortByLengthDesc xs)) = mset (map s_length xs)"
    by (simp add: sortByLengthDesc_def)
  then show ?thesis by (metis sum_mset_sum_list)
qed


lemma calculateStreaks_runs:
  "calculateStreaks H history =
   sortByLengthDesc (map streakOf (splitRuns (isNextDay H) (sortedDates history)))"
  by (simp add: calculateStreaks_def scan_splitRuns)

lemma sortedDates_sorted: "sorted (sortedDates history)"
  by (simp add: sortedDates_def)



subsection \<open>Worked examples\<close>

lemmas date_eval = dayIndex_def isDigit_def digitVal_def daysInMonth_def isLeapYear_def
  daysBeforeYear_def daysBeforeMonth_def

lemmas host_eval = isNextDay_def utcHost_def newYorkHost_def newYork2024_def isoDateOnly_def
  nextDayTime_def msPerDay_def

lemma dayIndex_2024_03_09: "dayIndex ''2024-03-09'' = Some 19791" by (simp add: date_eval upt_conv_Cons)
lemma dayIndex_2024_03_10: "dayIndex ''2024-03-10'' = Some 19792" by (simp add: date_eval upt_conv_Cons)
lemma dayIndex_2024_03_11: "dayIndex ''2024-03-11'' = Some 19793" by (simp add: date_eval upt_conv_Cons)
lemma dayIndex_2024_03_12: "dayIndex ''2024-03-12'' = Some 19794" by (simp add: date_eval upt_conv_Cons)


lemma readsDateKey_newYorkHost: "readsDateKey newYorkHost date = (dayIndex date \<noteq> None)"
  by (simp add: readsDateKey_def newYorkHost_def)



lemma shiftBounded_newYorkHost: "shiftBounded newYorkHost date"
  by (simp add: shiftBounded_def newYorkHost_def newYork2024_def nextDayTime_def msPerDay_def
      split: option.splits)



lemma isNextDay_newYork_mar_9_10: "isNextDay newYorkHost ''2024-03-09'' ''2024-03-10''"
  by (simp add: host_eval dayIndex_2024_03_09 dayIndex_2024_03_10)

lemma isNextDay_newYork_mar_10_11: "\<not> isNextDay newYorkHost ''2024-03-10'' ''2024-03-11''"
  by (simp add: host_eval dayIndex_2024_03_10 dayIndex_2024_03_11)

lemma isNextDay_newYork_mar_11_12: "isNextDay newYorkHost ''2024-03-11'' ''2024-03-12''"
  by (simp add: host_eval dayIndex_2024_03_11 dayIndex_2024_03_12)






lemma sortedDates_march:
  "sortedDates [(''2024-03-09'', ''done''), (''2024-03-10'', ''done''), (''2024-03-11'', ''done''),
                (''2024-03-12'', ''done'')]
   = [''2024-03-09'', ''2024-03-10'', ''2024-03-11'', ''2024-03-12'']"
  by (simp add: sortedDates_def less_eq_char_def less_char_def)


lemma splitRuns_newYork_march:
  "splitRuns (isNextDay newYorkHost) [''2024-03-09'', ''2024-03-10'', ''2024-03-11'', ''2024-03-12''] =
   [[''2024-03-09'', ''2024-03-10''], [''2024-03-11'', ''2024-03-12'']]"
  by (simp add: isNextDay_newYork_mar_9_10 isNextDay_newYork_mar_10_11 isNextDay_newYork_mar_11_12)



lemma sortByLengthDesc_march:
  "sortByLengthDesc (map streakOf [[''2024-03-09'', ''2024-03-10''], [''2024-03-11'', ''2024-03-12'']]) =
     [\<lparr>s_start = ''2024-03-09'', s_end = ''2024-03-10'', s_length = 2, s_type = None\<rparr>,
      \<lparr>s_start = ''2024-03-11'', s_end = ''2024-03-12'', s_length = 2, s_type = None\<rparr>]"
  by (simp add: sortByLengthDesc_def streakOf_def)


lemma calculateStreaks_newYork_march:
  "calculateStreaks newYorkHost [(''2024-03-09'', ''done''), (''2024-03-10'', ''done''),
                                 (''2024-03-11'', ''done''), (''2024-03-12'', ''done'')] =
     [\<lparr>s_start = ''2024-03-09'', s_end = ''2024-03-10'', s_length = 2, s_type = None\<rparr>,
      \<lparr>s_start = ''2024-03-11'', s_end = ''2024-03-12'', s_length = 2, s_type = None\<rparr>]"
  by (simp only: calculateStreaks_runs sortedDates_march splitRuns_newYork_march
      sortByLengthDesc_march)

subsection \<open>Claim C3\<close>




subsection \<open>Claim C10\<close>

text \<open>
  C10. The streaks returned by \<open>calculateStreaks\<close> partition the \<open>done\<close> dates, on every
  host and for every history. Every streak has length at least 1 and \<open>start \<le> end\<close>. Its
  length is the number of days from start to end inclusive: the instant of the end is the
  instant of the start advanced \<open>length - 1\<close> times to the next local day, and a start
  that the host reads as an invalid date forms a streak of its own, of length 1 with
  \<open>start = end\<close>; where the host reads the \<open>done\<close> keys as date keys and a change of the
  local offset shifts the next day by less than a day, the end is the calendar day
  \<open>start + length - 1\<close>. The lengths add up to the number of entries whose status is
  \<open>done\<close>.
\<close>

theorem calculateStreaks_partition:
  "(\<forall>s \<in> set (calculateStreaks H history).
      1 \<le> s_length s \<and> s_start s \<le> s_end s \<and>
      (\<forall>a. dateParse H (s_start s) = Some a \<longrightarrow>
           dateParse H (s_end s) = Some (localDaysAfter (localTZA H) (s_length s - 1) a)) \<and>
      (dateParse H (s_start s) = None \<longrightarrow> s_end s = s_start s \<and> s_length s = 1)) \<and>
   ((\<forall>date \<in> set (sortedDates history). readsDateKey H date \<and> shiftBounded H date) \<longrightarrow>
    (\<forall>s \<in> set (calculateStreaks H history).
      \<exists>a. dayIndex (s_start s) = Some a \<and> dayIndex (s_end s) = Some (a + int (s_length s) - 1))) \<and>
   sum_list (map s_length (calculateStreaks H history)) =
     length (filter (\<lambda>(date, status). status = ''done'') history)"
proof -
  let ?ds = "sortedDates history"
  have run: "\<exists>r. r \<in> set (splitRuns (isNextDay H) ?ds) \<and> s = streakOf r \<and> r \<noteq> [] \<and>
                 consecutiveRun (isNextDay H) r \<and> set r \<subseteq> set ?ds"
    if "s \<in> set (calculateStreaks H history)" for s
  proof -
    from that obtain r where r: "r \<in> set (splitRuns (isNextDay H) ?ds)" and s: "s = streakOf r"
      by (auto simp: calculateStreaks_runs sortByLengthDesc_set)
    have "set r \<subseteq> set (concat (splitRuns (isNextDay H) ?ds))" using r by auto
    then have "set r \<subseteq> set ?ds" by (simp add: concat_splitRuns)
    then show ?thesis using r s splitRuns_runs[OF r] by blast
  qed
  have each: "1 \<le> s_length s \<and> s_start s \<le> s_end s \<and>
      (\<forall>a. dateParse H (s_start s) = Some a \<longrightarrow>
           dateParse H (s_end s) = Some (localDaysAfter (localTZA H) (s_length s - 1) a)) \<and>
      (dateParse H (s_start s) = None \<longrightarrow> s_end s = s_start s \<and> s_length s = 1)"
    if "s \<in> set (calculateStreaks H history)" for s
  proof -
    from run[OF that] obtain r where r: "r \<in> set (splitRuns (isNextDay H) ?ds)"
      and s: "s = streakOf r" and ne: "r \<noteq> []" and cr: "consecutiveRun (isNextDay H) r"
      by blast
    have "sorted (concat (splitRuns (isNextDay H) ?ds))" by (simp add: concat_splitRuns sortedDates_sorted)
    then have "sorted r" using r by (rule sorted_concat_member)
    then have le: "hd r \<le> last r" using ne by (rule sorted_hd_le_last)
    have len: "1 \<le> length r" using ne by (cases r) simp_all
    have single: "last r = hd r \<and> length r = 1" if "dateParse H (hd r) = None"
      using consecutiveRun_invalid_single[OF cr ne that] by (cases r) auto
    show ?thesis
      using le len single consecutiveRun_last_time[OF cr ne]
      by (simp add: s streakOf_def)
  qed
  have cal: "\<exists>a. dayIndex (s_start s) = Some a \<and> dayIndex (s_end s) = Some (a + int (s_length s) - 1)"
    if good: "\<forall>date \<in> set ?ds. readsDateKey H date \<and> shiftBounded H date"
      and "s \<in> set (calculateStreaks H history)" for s
  proof -
    from run[OF that(2)] obtain r where s: "s = streakOf r" and ne: "r \<noteq> []"
      and cr: "consecutiveRun (isNextDay H) r" and sub: "set r \<subseteq> set ?ds"
      by blast
    have cc: "consecutiveRun calendarNext r"
      by (rule consecutiveRun_mono[OF cr]) (use good sub isNextDay_bounded in blast)
    have "hd r \<in> set ?ds" using ne sub by (cases r) auto
    then obtain a where a: "dayIndex (hd r) = Some a" using good by (auto simp: readsDateKey_def)
    show ?thesis using consecutiveRun_last_day[OF cc ne a] a by (simp add: s streakOf_def)
  qed
  have "sum_list (map s_length (calculateStreaks H history)) =
        sum_list (map length (splitRuns (isNextDay H) ?ds))"
    by (simp add: calculateStreaks_runs sortByLengthDesc_sum streakOf_def comp_def)
  also have "\<dots> = length (concat (splitRuns (isNextDay H) ?ds))" by (simp add: length_concat)
  also have "\<dots> = length (filter (\<lambda>(date, status). status = ''done'') history)"
    by (simp add: concat_splitRuns sortedDates_def)
  finally show ?thesis using each cal by blast
qed

theorem calculateStreaks_partition_witness:
  "calculateStreaks newYorkHost [(''2024-03-09'', ''done''), (''2024-03-10'', ''done''),
                                 (''2024-03-11'', ''done''), (''2024-03-12'', ''done'')] =
     [\<lparr>s_start = ''2024-03-09'', s_end = ''2024-03-10'', s_length = 2, s_type = None\<rparr>,
      \<lparr>s_start = ''2024-03-11'', s_end = ''2024-03-12'', s_length = 2, s_type = None\<rparr>] \<and>
   readsDateKey newYorkHost ''2024-03-09'' \<and> shiftBounded newYorkHost ''2024-03-09'' \<and>
   readsDateKey newYorkHost ''2024-03-10'' \<and> shiftBounded newYorkHost ''2024-03-10'' \<and>
   readsDateKey newYorkHost ''2024-03-11'' \<and> shiftBounded newYorkHost ''2024-03-11'' \<and>
   readsDateKey newYorkHost ''2024-03-12'' \<and> shiftBounded newYorkHost ''2024-03-12'' \<and>
   ''2024-03-11'' \<le> ''2024-03-12'' \<and>
   dateParse newYorkHost ''2024-03-11'' = Some 1710115200000 \<and>
   dateParse newYorkHost ''2024-03-12'' = Some (localDaysAfter (localTZA newYorkHost) 1 1710115200000) \<and>
   dayIndex ''2024-03-11'' = Some 19793 \<and>
   dayIndex ''2024-03-12'' = Some 19794 \<and>
   sum_list (map s_length (calculateStreaks newYorkHost [(''2024-03-09'', ''done''),
      (''2024-03-10'', ''done''), (''2024-03-11'', ''done''), (''2024-03-12'', ''done'')])) = 4 \<and>
   length (filter (\<lambda>(date, status). status = ''done'') [(''2024-03-09'', ''done''),
      (''2024-03-10'', ''done''), (''2024-03-11'', ''done''), (''2024-03-12'', ''done'')]) = 4"
proof -
  let ?h = "[(''2024-03-09'', ''done''), (''2024-03-10'', ''done''), (''2024-03-11'', ''done''),
             (''2024-03-12'', ''done'')]"
  let ?s = "\<lparr>s_start = ''2024-03-11'', s_end = ''2024-03-12'', s_length = 2, s_type = None\<rparr>"
  note ev = calculateStreaks_newYork_march
  have m: "?s \<in> set (calculateStreaks newYorkHost ?h)" by (simp only: ev) simp
  have rk: "readsDateKey newYorkHost ''2024-03-09''" "readsDateKey newYorkHost ''2024-03-10''"
    "readsDateKey newYorkHost ''2024-03-11''" "readsDateKey newYorkHost ''2024-03-12''"
    by (simp_all add: readsDateKey_newYorkHost dayIndex_2024_03_09 dayIndex_2024_03_10
        dayIndex_2024_03_11 dayIndex_2024_03_12)
  have good: "\<forall>date \<in> set (sortedDates ?h). readsDateKey newYorkHost date \<and> shiftBounded newYorkHost date"
    by (simp only: sortedDates_march) (simp add: rk shiftBounded_newYorkHost)
  have p11: "dateParse newYorkHost ''2024-03-11'' = Some 1710115200000"
    by (simp add: newYorkHost_def isoDateOnly_def msPerDay_def dayIndex_2024_03_11)
  from calculateStreaks_partition [of newYorkHost ?h] m good
  have a: "s_start ?s \<le> s_end ?s"
    and b: "\<forall>a. dateParse newYorkHost (s_start ?s) = Some a \<longrightarrow>
              dateParse newYorkHost (s_end ?s) = Some (localDaysAfter (localTZA newYorkHost) (s_length ?s - 1) a)"
    and c: "\<exists>a. dayIndex (s_start ?s) = Some a \<and> dayIndex (s_end ?s) = Some (a + int (s_length ?s) - 1)"
    and d: "sum_list (map s_length (calculateStreaks newYorkHost ?h)) =
            length (filter (\<lambda>(date, status). status = ''done'') ?h)"
    by blast+
  have l: "length (filter (\<lambda>(date, status). status = ''done'') ?h) = 4" by simp
  have p12: "dateParse newYorkHost ''2024-03-12'' =
             Some (localDaysAfter (localTZA newYorkHost) 1 1710115200000)"
    using b p11 by simp
  have d12: "dayIndex ''2024-03-12'' = Some 19794"
    using c dayIndex_2024_03_11 by simp
  show ?thesis
    using a d l p11 p12 d12 dayIndex_2024_03_11 ev rk shiftBounded_newYorkHost by simp
qed

section \<open>The workout streaks against the habit streaks\<close>


lemma longStreaks_append: "longStreaks (xs @ ys) = longStreaks xs @ longStreaks ys"
  by (simp add: longStreaks_def)









lemma sort_single_key: "sort [k] = [k]" by simp

subsection \<open>Claim C4\<close>




section \<open>Properties of \<open>parseCSVData\<close>\<close>

lemma pushEntry_error: "pushEntry k e h = Inl err \<Longrightarrow> err = TypeError"
  by (auto simp: pushEntry_def split: option.splits if_splits)

lemma decodeHabit_error: "decodeHabit key n c data = Inl err \<Longrightarrow> err = TypeError"
  by (auto simp: decodeHabit_def Let_def split: jsval.splits if_splits)

lemma decodeHabitHistory_error: "decodeHabitHistory key st data = Inl err \<Longrightarrow> err = TypeError"
  by (auto simp: decodeHabitHistory_def Let_def split: jsval.splits if_splits)

lemmas decodeCase_defs = caseMeta_def caseWater_def caseWaterHistory_def caseProtein_def
  caseProteinHistory_def caseWorkoutState_def caseWorkoutCount_def caseWorkoutHistory_def
  caseHabit_def caseHabitHistory_def caseSettings_def

lemma decodeCase_error:
  "caseMeta hs imp row \<noteq> Inl FormatError" "caseWater hs imp row \<noteq> Inl FormatError"
  "caseWaterHistory hs imp row \<noteq> Inl FormatError" "caseProtein hs imp row \<noteq> Inl FormatError"
  "caseProteinHistory hs imp row \<noteq> Inl FormatError" "caseWorkoutState hs imp row \<noteq> Inl FormatError"
  "caseWorkoutCount hs imp row \<noteq> Inl FormatError" "caseWorkoutHistory hs imp row \<noteq> Inl FormatError"
  "caseHabit hs imp row \<noteq> Inl FormatError" "caseHabitHistory hs imp row \<noteq> Inl FormatError"
  "caseSettings hs imp row \<noteq> Inl FormatError"
  by (auto simp: decodeCase_defs Let_def split: sum.splits
      dest: pushEntry_error decodeHabit_error decodeHabitHistory_error)

lemma decodeRow_error: "decodeRow hs imp row \<noteq> Inl FormatError"
  unfolding decodeRow_def Let_def by (simp add: decodeCase_error)

lemma decodeStep_error:
  "decodeStep hs acc row = Inl FormatError \<Longrightarrow> acc = Inl FormatError"
  using decodeRow_error[of hs _ "parseCSVRow row"]
  by (auto simp: decodeStep_def split: sum.splits if_splits)

lemma decode_loop_error:
  "foldl (decodeStep hs) acc rows = Inl FormatError \<Longrightarrow> acc = Inl FormatError"
proof (induction rows arbitrary: acc)
  case Nil
  then show ?case by simp
next
  case (Cons r rows)
  then have "decodeStep hs acc r = Inl FormatError" by simp
  then show ?case by (rule decodeStep_error)
qed

lemma splitLines_loop_nonempty: "splitLines_loop cur s \<noteq> []"
  by (induction cur s rule: splitLines_loop.induct) auto

lemma splitLines_loop_single:
  "(length (splitLines_loop cur s) < 2) = (newline \<notin> set s)"
proof (induction cur s rule: splitLines_loop.induct)
  case (1 cur)
  then show ?case by simp
next
  case (2 cur c cs)
  have ne: "\<not> length (a # splitLines_loop [] b) < 2" for a b
    using splitLines_loop_nonempty[of "[]" b] by (cases "splitLines_loop [] b") simp_all
  show ?case
  proof (cases "c = newline")
    case True
    then show ?thesis using ne[of cur cs] by simp
  next
    case False
    show ?thesis
    proof (cases "c = creturn \<and> cs \<noteq> [] \<and> hd cs = newline")
      case True
      then have "newline \<in> set cs" by (cases cs) auto
      then show ?thesis using True False ne[of cur "tl cs"] by simp
    next
      case F2: False
      then show ?thesis using False 2(3) by auto
    qed
  qed
qed

subsection \<open>Claim C5\<close>

text \<open>
  C5, amended. \<open>parseCSVData\<close> fails with the format error
  (\<open>'Invalid CSV file format'\<close>) exactly when the text splits into fewer than two
  lines, that is, when it contains no line feed. Nothing checks the header: no choice of
  header columns makes the format error appear.
\<close>

theorem parseCSVData_FormatError_iff:
  "(parseCSVData now csvData = Inl FormatError) = (length (splitLines csvData) < 2) \<and>
   (length (splitLines csvData) < 2) = (newline \<notin> set csvData)"
proof -
  have "foldl (decodeStep hs) (Inr imp) rows \<noteq> Inl FormatError" for hs imp rows
    using decode_loop_error[of hs "Inr imp" rows] by auto
  then show ?thesis
    by (simp add: parseCSVData_def Let_def splitLines_def splitLines_loop_single)
qed

text \<open>
  C5 as stated fails in its second case: a header without any of the required columns is
  accepted. The rows under it find no \<open>data_type\<close> cell and are ignored, and the call
  returns the initial data.
\<close>

theorem parseCSVData_missing_columns_counterexample:
  "parseCSVRow ''foo'' = [''foo''] \<and>
   headerMap (parseCSVRow ''foo'') ''data_type'' = None \<and>
   headerMap (parseCSVRow ''foo'') ''key'' = None \<and>
   parseCSVData ''2024-01-01T00:00:00.000Z'' (''foo'' @ [newline] @ ''water,goal,5'') =
     Inr (initialImportedData ''2024-01-01T00:00:00.000Z'')"
  by (simp add: parseCSVData_def splitLines_def parseCSVRow_def headerMap_def decodeStep_def
      isBlankRow_def isWhiteSpace_def decodeRow_def cell_def)

section \<open>Properties of \<open>convertDataToCSV\<close>\<close>

lemma headerLine: "join '','' headers =
  ''data_type,key,value,date,amount,timestamp,type,count,name,color,completed,order''"
  by (simp add: headers_def)

lemma parse_headerLine: "parseCSVRow (join '','' headers) = headers"
  by (simp add: headerLine) (simp add: parseCSVRow_def headers_def)

lemma splitLines_loop_first:
  "newline \<notin> set h \<Longrightarrow> creturn \<notin> set h \<Longrightarrow>
   splitLines_loop cur (h @ newline # rest) = (cur @ h) # splitLines_loop [] rest"
  by (induction h arbitrary: cur) auto

lemma headerMap_headers:
  "list_all (\<lambda>name. headerMap headers name \<noteq> None) headers"
  by (simp add: headerMap_def headers_def upt_conv_Cons)

lemma dataRows_shape:
  "\<exists>mid1 mid2. dataRows exportDate d =
     [addRow ''meta'' ''version'' (Str ''2.0''), addRow ''meta'' ''exportDate'' (Str exportDate),
      addRow ''water'' ''goal'' (water_goal d), addRow ''water'' ''intake'' (water_intake d)]
     @ mid1
     @ [addRow ''protein'' ''goal'' (protein_goal d), addRow ''protein'' ''intake'' (protein_intake d)]
     @ mid2
     @ [addRow ''settings'' ''theme'' (settings_theme d),
        addRow ''settings'' ''reminder'' (settings_reminder d)]"
proof -
  have "dataRows exportDate d =
     [addRow ''meta'' ''version'' (Str ''2.0''), addRow ''meta'' ''exportDate'' (Str exportDate),
      addRow ''water'' ''goal'' (water_goal d), addRow ''water'' ''intake'' (water_intake d)]
     @ intakeHistoryRows ''water_history'' (water_history d)
     @ [addRow ''protein'' ''goal'' (protein_goal d), addRow ''protein'' ''intake'' (protein_intake d)]
     @ (intakeHistoryRows ''protein_history'' (protein_history d) @ workoutStateRows (workout_state d)
        @ workoutCountRows (workout_count d) @ workoutHistoryRows (workout_history d)
        @ habitRows (habits_data d))
     @ [addRow ''settings'' ''theme'' (settings_theme d),
        addRow ''settings'' ''reminder'' (settings_reminder d)]"
    by (simp add: dataRows_def)
  then show ?thesis by blast
qed

lemma dataRows_length: "length (dataRows exportDate d) \<ge> 8"
  by (simp add: dataRows_def)

lemma convertDataToCSV_first_line:
  "\<exists>rest. convertDataToCSV exportDate d = join '','' headers @ newline # rest"
proof -
  obtain r rs where "map csvLine (dataRows exportDate d) = r # rs"
    using dataRows_length[of exportDate d] by (cases "dataRows exportDate d") auto
  then show ?thesis by (simp add: convertDataToCSV_def csvRows_def)
qed

lemma splitLines_convertDataToCSV:
  "hd (splitLines (convertDataToCSV exportDate d)) = join '','' headers \<and>
   length (splitLines (convertDataToCSV exportDate d)) \<ge> 2"
proof -
  obtain rest where r: "convertDataToCSV exportDate d = join '','' headers @ newline # rest"
    using convertDataToCSV_first_line by blast
  have n: "newline \<notin> set (join '','' headers)" "creturn \<notin> set (join '','' headers)"
    by (simp_all add: headerLine)
  have "splitLines (convertDataToCSV exportDate d) = join '','' headers # splitLines_loop [] rest"
    unfolding splitLines_def r using splitLines_loop_first[OF n, of "[]" rest] by simp
  moreover have "splitLines_loop [] rest \<noteq> []" by (rule splitLines_loop_nonempty)
  ultimately show ?thesis by (cases "splitLines_loop [] rest") simp_all
qed

text \<open>Every line feed of the text ends a line for \<open>split(/\r?\n/)\<close>.\<close>

lemma splitLines_loop_length:
  "length (splitLines_loop cur s) = Suc (length (filter (\<lambda>c. c = newline) s))"
proof (induction cur s rule: splitLines_loop.induct)
  case (1 cur)
  then show ?case by simp
next
  case (2 cur c cs)
  show ?case
  proof (cases "c = newline")
    case True
    then show ?thesis using 2(1) by simp
  next
    case False
    show ?thesis
    proof (cases "c = creturn \<and> cs \<noteq> [] \<and> hd cs = newline")
      case True
      then obtain cs' where cs: "cs = newline # cs'" by (cases cs) auto
      show ?thesis using 2(2)[OF False True] False True by (simp add: cs)
    next
      case nr: False
      show ?thesis using 2(3)[OF False nr] False nr by auto
    qed
  qed
qed

lemma join_newlines:
  "length (filter (\<lambda>c. c = newline) (join [newline] ls)) \<ge> length ls - 1"
  by (induction "[newline]" ls rule: join.induct) auto

lemma convertDataToCSV_lines:
  "length (splitLines (convertDataToCSV exportDate d)) \<ge> 9"
proof -
  have "length (csvRows exportDate d) \<ge> 9"
    using dataRows_length[of exportDate d] by (simp add: csvRows_def)
  then have "length (filter (\<lambda>c. c = newline) (convertDataToCSV exportDate d)) \<ge> 8"
    using join_newlines[of "csvRows exportDate d"] by (simp add: convertDataToCSV_def)
  then show ?thesis by (simp add: splitLines_def splitLines_loop_length)
qed

lemma convertDataToCSV_two_lines:
  "\<exists>rest. convertDataToCSV exportDate d =
     ''data_type,key,value,date,amount,timestamp,type,count,name,color,completed,order'' @ newline #
     ''meta,version,2.0,,,,,,,,,'' @ newline # rest"
proof -
  obtain x xs where x: "dataRows exportDate d = addRow ''meta'' ''version'' (Str ''2.0'') # x # xs"
    by (simp add: dataRows_def)
  have l: "csvLine (addRow ''meta'' ''version'' (Str ''2.0'')) = ''meta,version,2.0,,,,,,,,,''"
    by (simp add: csvLine_def addRow_def escapeCSV_def)
  have "csvRows exportDate d =
        join '','' headers # ''meta,version,2.0,,,,,,,,,'' # csvLine x # map csvLine xs"
    unfolding csvRows_def x by (simp only: list.map l)
  then show ?thesis by (simp add: convertDataToCSV_def headerLine)
qed

lemma splitLines_two_lines:
  "take 2 (splitLines (convertDataToCSV exportDate d)) =
     [''data_type,key,value,date,amount,timestamp,type,count,name,color,completed,order'',
      ''meta,version,2.0,,,,,,,,,'']"
proof -
  obtain rest where r: "convertDataToCSV exportDate d =
     ''data_type,key,value,date,amount,timestamp,type,count,name,color,completed,order'' @ newline #
     ''meta,version,2.0,,,,,,,,,'' @ newline # rest"
    using convertDataToCSV_two_lines by blast
  have "splitLines (convertDataToCSV exportDate d) =
     ''data_type,key,value,date,amount,timestamp,type,count,name,color,completed,order'' #
     ''meta,version,2.0,,,,,,,,,'' # splitLines_loop [] rest"
    unfolding splitLines_def r
    by (subst splitLines_loop_first, simp, simp, subst splitLines_loop_first, simp, simp, simp)
  then show ?thesis by simp
qed

lemma convertDataToCSV_empty:
  "convertDataToCSV ''2024-01-01T00:00:00.000Z'' emptyTrackedData =
     ''data_type,key,value,date,amount,timestamp,type,count,name,color,completed,order'' @ newline #
     ''meta,version,2.0,,,,,,,,,'' @ newline #
     ''meta,exportDate,2024-01-01T00:00:00.000Z,,,,,,,,,'' @ newline #
     ''water,goal,,,,,,,,,,'' @ newline #
     ''water,intake,,,,,,,,,,'' @ newline #
     ''protein,goal,,,,,,,,,,'' @ newline #
     ''protein,intake,,,,,,,,,,'' @ newline #
     ''settings,theme,,,,,,,,,,'' @ newline #
     ''settings,reminder,,,,,,,,,,''"
  by (simp add: convertDataToCSV_def csvRows_def dataRows_def emptyTrackedData_def headerLine
      intakeHistoryRows_def workoutStateRows_def workoutCountRows_def workoutHistoryRows_def
      habitRows_def csvLine_def addRow_def escapeCSV_def)

subsection \<open>Claim C9\<close>

text \<open>
  C9. For every tracked data, the text \<open>convertDataToCSV\<close> returns is the header line of
  twelve columns followed by at least eight data rows, each on a line of its own: the two
  \<open>meta\<close> rows, the water goal and intake, the protein goal and intake, and the two
  settings rows, in this order, whatever else is empty or \<open>null\<close>. The text has at least
  eight line feeds, so \<open>parseCSVData\<close> splits it into at least nine lines; the first two
  are the header line and the version row. With every scalar \<open>null\<close> and every tracker
  empty the text is exactly the header and the eight rows. Read back, the first line
  parses to the twelve header names, each of which \<open>headerMap\<close> then finds, and
  \<open>parseCSVData\<close> does not fail with the format error.
\<close>

theorem convertDataToCSV_never_too_short:
  "(\<exists>mid1 mid2. convertDataToCSV exportDate d =
     join [newline]
       (''data_type,key,value,date,amount,timestamp,type,count,name,color,completed,order'' #
        map csvLine
         ([addRow ''meta'' ''version'' (Str ''2.0''), addRow ''meta'' ''exportDate'' (Str exportDate),
           addRow ''water'' ''goal'' (water_goal d), addRow ''water'' ''intake'' (water_intake d)]
          @ mid1
          @ [addRow ''protein'' ''goal'' (protein_goal d), addRow ''protein'' ''intake'' (protein_intake d)]
          @ mid2
          @ [addRow ''settings'' ''theme'' (settings_theme d),
             addRow ''settings'' ''reminder'' (settings_reminder d)]))) \<and>
   length (filter (\<lambda>c. c = newline) (convertDataToCSV exportDate d)) \<ge> 8 \<and>
   length (splitLines (convertDataToCSV exportDate d)) \<ge> 9 \<and>
   take 2 (splitLines (convertDataToCSV exportDate d)) =
     [''data_type,key,value,date,amount,timestamp,type,count,name,color,completed,order'',
      ''meta,version,2.0,,,,,,,,,''] \<and>
   splitLines (convertDataToCSV ''2024-01-01T00:00:00.000Z'' emptyTrackedData) =
     [''data_type,key,value,date,amount,timestamp,type,count,name,color,completed,order'',
      ''meta,version,2.0,,,,,,,,,'',
      ''meta,exportDate,2024-01-01T00:00:00.000Z,,,,,,,,,'',
      ''water,goal,,,,,,,,,,'',
      ''water,intake,,,,,,,,,,'',
      ''protein,goal,,,,,,,,,,'',
      ''protein,intake,,,,,,,,,,'',
      ''settings,theme,,,,,,,,,,'',
      ''settings,reminder,,,,,,,,,,''] \<and>
   parseCSVRow (hd (splitLines (convertDataToCSV exportDate d))) = headers \<and>
   list_all (\<lambda>name. headerMap (parseCSVRow (hd (splitLines (convertDataToCSV exportDate d)))) name \<noteq> None)
     headers \<and>
   parseCSVData now (convertDataToCSV exportDate d) \<noteq> Inl FormatError"
proof -
  have a: "\<exists>mid1 mid2. convertDataToCSV exportDate d =
     join [newline]
       (''data_type,key,value,date,amount,timestamp,type,count,name,color,completed,order'' #
        map csvLine
         ([addRow ''meta'' ''version'' (Str ''2.0''), addRow ''meta'' ''exportDate'' (Str exportDate),
           addRow ''water'' ''goal'' (water_goal d), addRow ''water'' ''intake'' (water_intake d)]
          @ mid1
          @ [addRow ''protein'' ''goal'' (protein_goal d), addRow ''protein'' ''intake'' (protein_intake d)]
          @ mid2
          @ [addRow ''settings'' ''theme'' (settings_theme d),
             addRow ''settings'' ''reminder'' (settings_reminder d)]))"
  proof -
    from dataRows_shape[of exportDate d] obtain mid1 mid2 where
      "dataRows exportDate d =
         [addRow ''meta'' ''version'' (Str ''2.0''), addRow ''meta'' ''exportDate'' (Str exportDate),
          addRow ''water'' ''goal'' (water_goal d), addRow ''water'' ''intake'' (water_intake d)]
         @ mid1
         @ [addRow ''protein'' ''goal'' (protein_goal d), addRow ''protein'' ''intake'' (protein_intake d)]
         @ mid2
         @ [addRow ''settings'' ''theme'' (settings_theme d),
            addRow ''settings'' ''reminder'' (settings_reminder d)]"
      by blast
    then have "convertDataToCSV exportDate d =
     join [newline]
       (''data_type,key,value,date,amount,timestamp,type,count,name,color,completed,order'' #
        map csvLine
         ([addRow ''meta'' ''version'' (Str ''2.0''), addRow ''meta'' ''exportDate'' (Str exportDate),
           addRow ''water'' ''goal'' (water_goal d), addRow ''water'' ''intake'' (water_intake d)]
          @ mid1
          @ [addRow ''protein'' ''goal'' (protein_goal d), addRow ''protein'' ''intake'' (protein_intake d)]
          @ mid2
          @ [addRow ''settings'' ''theme'' (settings_theme d),
             addRow ''settings'' ''reminder'' (settings_reminder d)]))"
      by (simp only: convertDataToCSV_def csvRows_def headerLine)
    then show ?thesis by blast
  qed
  have b: "length (filter (\<lambda>c. c = newline) (convertDataToCSV exportDate d)) \<ge> 8"
    using convertDataToCSV_lines[of exportDate d] by (simp add: splitLines_def splitLines_loop_length)
  note c = convertDataToCSV_lines[of exportDate d]
  note t = splitLines_two_lines[of exportDate d]
  have em: "splitLines (convertDataToCSV ''2024-01-01T00:00:00.000Z'' emptyTrackedData) =
     [''data_type,key,value,date,amount,timestamp,type,count,name,color,completed,order'',
      ''meta,version,2.0,,,,,,,,,'',
      ''meta,exportDate,2024-01-01T00:00:00.000Z,,,,,,,,,'',
      ''water,goal,,,,,,,,,,'',
      ''water,intake,,,,,,,,,,'',
      ''protein,goal,,,,,,,,,,'',
      ''protein,intake,,,,,,,,,,'',
      ''settings,theme,,,,,,,,,,'',
      ''settings,reminder,,,,,,,,,,'']"
    unfolding convertDataToCSV_empty splitLines_def by simp
  note s = splitLines_convertDataToCSV[of exportDate d]
  have e: "parseCSVRow (hd (splitLines (convertDataToCSV exportDate d))) = headers"
    using s by (simp add: parse_headerLine)
  have f: "list_all (\<lambda>name. headerMap (parseCSVRow (hd (splitLines (convertDataToCSV exportDate d)))) name \<noteq> None)
     headers"
    unfolding e by (rule headerMap_headers)
  have "foldl (decodeStep hs) (Inr imp) rows \<noteq> Inl FormatError" for hs imp rows
    using decode_loop_error[of hs "Inr imp" rows] by auto
  then have g: "parseCSVData now (convertDataToCSV exportDate d) \<noteq> Inl FormatError"
    using s by (simp add: parseCSVData_def Let_def)
  show ?thesis using a b c t em e f g by blast
qed

section \<open>Properties of \<open>importData\<close>\<close>

lemma putOwn_new: "k \<notin> set (map fst obj) \<Longrightarrow> putOwn k v obj = obj @ [(k, v)]"
  by (induction obj) auto

lemma takeBackup_loop:
  "distinct (map fst (acc @ store)) \<Longrightarrow> ''__proto__'' \<notin> set (map fst store) \<Longrightarrow>
   foldl (\<lambda>backup (key, value). setProperty key value backup) acc store = acc @ store"
proof (induction store arbitrary: acc)
  case Nil
  then show ?case by simp
next
  case (Cons p store)
  obtain k v where p: "p = (k, v)" by (cases p)
  have "setProperty k v acc = acc @ [(k, v)]"
    using Cons.prems p by (auto simp: setProperty_def putOwn_new)
  moreover have "distinct (map fst ((acc @ [(k, v)]) @ store))" using Cons.prems(1) p by simp
  ultimately show ?case using Cons.IH[of "acc @ [(k, v)]"] Cons.prems(2) p by simp
qed

lemma takeBackup_exact:
  "distinct (map fst store) \<Longrightarrow> ''__proto__'' \<notin> set (map fst store) \<Longrightarrow> takeBackup store = store"
  using takeBackup_loop[of "[]" store] by (simp add: takeBackup_def)

lemma getUsage_append: "getUsage (a @ b) = getUsage a + getUsage b"
  by (simp add: getUsage_def)

lemma restoreFrom_fits:
  "distinct (map fst (acc @ backup)) \<Longrightarrow> getUsage (acc @ backup) \<le> capacity \<Longrightarrow>
   restoreFrom capacity backup acc = (PreviousDataRestored, acc @ backup)"
proof (induction backup arbitrary: acc)
  case Nil
  then show ?case by simp
next
  case (Cons p backup)
  obtain k v where p: "p = (k, v)" by (cases p)
  have new: "putOwn k v acc = acc @ [(k, v)]"
    using Cons.prems(1) p by (simp add: putOwn_new)
  have "getUsage (acc @ [(k, v)]) \<le> getUsage (acc @ p # backup)"
    using p by (simp add: getUsage_def)
  then have fit: "getUsage (acc @ [(k, v)]) \<le> capacity" using Cons.prems(2) by simp
  have "restoreFrom capacity backup (acc @ [(k, v)]) = (PreviousDataRestored, (acc @ [(k, v)]) @ backup)"
    using Cons.prems p by (intro Cons.IH) simp_all
  then show ?case using new fit p by (simp add: setItem_def)
qed

text \<open>The backup object cannot hold the key \<open>__proto__\<close>.\<close>

lemma takeBackup_drops_proto: "takeBackup [(''__proto__'', v)] = []"
  by (simp add: takeBackup_def setProperty_def)

subsection \<open>Claim C6\<close>

text \<open>
  C6. The import is all or nothing. For a store that is within its capacity and has no
  key \<open>__proto__\<close>, the backup taken before the first write holds every key with its
  value; if a write of the import is rejected, the store is cleared and rebuilt from the
  backup, and the store after is the store before; if none is rejected, the store after
  is the store with every write applied. No other state is left behind.
\<close>

theorem importData_rollback:
  assumes "getUsage store \<le> capacity"
    and "distinct (map fst store)"
    and "''__proto__'' \<notin> set (map fst store)"
  shows "takeBackup store = store \<and>
         (case runWrites capacity (importWrites K importedData) store of
            Inl storageError \<Rightarrow>
              importData True capacity K importedData store = (PreviousDataRestored, store)
          | Inr store' \<Rightarrow>
              importData True capacity K importedData store = (Imported, store'))"
proof -
  have b: "takeBackup store = store" using assms(2,3) by (rule takeBackup_exact)
  have "restoreFrom capacity store [] = (PreviousDataRestored, [] @ store)"
    using assms(1,2) by (intro restoreFrom_fits) simp_all
  then show ?thesis using b by (simp add: importData_def split: sum.splits)
qed

theorem importData_rollback_witness:
  "getUsage sampleStore \<le> 50 \<and> distinct (map fst sampleStore) \<and>
   ''__proto__'' \<notin> set (map fst sampleStore) \<and>
   runWrites 50 (take 2 (importWrites STORAGE_KEYS sampleImport)) sampleStore =
     Inr [(''goal_water'', ''2500''), (''app_theme'', ''dark-theme''), (''intake_water'', ''100'')] \<and>
   runWrites 50 (importWrites STORAGE_KEYS sampleImport) sampleStore = Inl QuotaError \<and>
   importData True 50 STORAGE_KEYS sampleImport sampleStore =
     (PreviousDataRestored, [(''goal_water'', ''2000''), (''app_theme'', ''dark-theme'')])"
proof -
  have u: "getUsage sampleStore \<le> 50" by (simp add: getUsage_def sampleStore_def)
  have d: "distinct (map fst sampleStore)" by (simp add: sampleStore_def)
  have n: "''__proto__'' \<notin> set (map fst sampleStore)" by (simp add: sampleStore_def)
  have w2: "runWrites 50 (take 2 (importWrites STORAGE_KEYS sampleImport)) sampleStore =
     Inr [(''goal_water'', ''2500''), (''app_theme'', ''dark-theme''), (''intake_water'', ''100'')]"
    by (simp add: importWrites_def STORAGE_KEYS_def sampleImport_def sampleStore_def setItem_def getUsage_def)
  have w: "runWrites 50 (importWrites STORAGE_KEYS sampleImport) sampleStore = Inl QuotaError"
    by (simp add: importWrites_def STORAGE_KEYS_def sampleImport_def sampleStore_def setItem_def getUsage_def)
  show ?thesis
    using importData_rollback [OF u d n, of STORAGE_KEYS sampleImport] u d n w2 w
    by (simp add: sampleStore_def)
qed

section \<open>Writing and reading back: numbers\<close>














section \<open>Writing and reading back: rows\<close>







section \<open>Writing and reading back: history maps\<close>









section \<open>Writing and reading back: one row\<close>


lemma decode_loop_append:
  "foldl (decodeStep hs) (Inr imp) l1 = Inr imp1 \<Longrightarrow>
   foldl (decodeStep hs) (Inr imp) (l1 @ l2) = foldl (decodeStep hs) (Inr imp1) l2"
  by simp












section \<open>Writing and reading back: the rows of a history\<close>


lemma map_snd_enumerate_fun:
  "map (\<lambda>p. (d, f (snd p))) (enumerate n xs) = map (\<lambda>x. (d, f x)) xs"
  by (induction xs arbitrary: n) simp_all

lemma flatHistory_map:
  "flatHistory (map (\<lambda>(date, entries). (date, map f entries)) h) =
   concat (map (\<lambda>(date, entries). map (\<lambda>(index, entry). (date, f entry)) (enumerate 0 entries)) h)"
  by (simp add: flatHistory_def case_prod_unfold comp_def map_snd_enumerate_fun)


















section \<open>Writing and reading back: rows that leave the histories alone\<close>






section \<open>Writing and reading back: the habits\<close>












section \<open>Writing and reading back: the whole text\<close>




subsection \<open>A habit name with a line feed\<close>










subsection \<open>Claim C1\<close>





end

